theory Spec2Isabelle
  imports Main
begin

section \<open>Results, exceptions and traces\<close>

text \<open>
  An \<open>ExecuteGoalResult\<close> / \<open>HandlerResult\<close> / \<open>ChildProcessResult\<close> is an exit code
  with an optional message.  A rejected promise or a thrown exception is a value \<open>Inl e\<close>
  of the sum type, a returned value is \<open>Inr v\<close>.
\<close>

record ExecuteGoalResult =
  code :: int
  message :: "string option"

datatype exn = Exception string

type_synonym 'a promise = "exn + 'a"

definition Success :: ExecuteGoalResult where
  "Success = \<lparr>code = 0, message = None\<rparr>"

text \<open>\<open>failure(err)\<close> of the automation client: code 1 and the message of the error.\<close>

fun failure :: "exn \<Rightarrow> ExecuteGoalResult" where
  "failure (Exception m) = \<lparr>code = 1, message = Some m\<rparr>"

section \<open>Docker login arguments (executeDockerBuild, lines 153-156)\<close>

text \<open>
  \<open>dockerfileFinder\<close> is optional; when present, the field holds what calling it on the
  project yields.
\<close>

record DockerOptions =
  registry :: string
  user :: string
  password :: string
  dockerfileFinder :: "string promise option"

text \<open>The character class \<open>[A-Za-z0-9]\<close> of the regular expression.\<close>

definition alnum :: "char \<Rightarrow> bool" where
  "alnum c = (let n = (of_char c :: nat) in
     (65 \<le> n \<and> n \<le> 90) \<or> (97 \<le> n \<and> n \<le> 122) \<or> (48 \<le> n \<and> n \<le> 57))"

text \<open>\<open>/[^A-Za-z0-9]/.test(s)\<close>: some character of \<open>s\<close> is outside the class.\<close>

definition has_non_alnum :: "string \<Rightarrow> bool" where
  "has_non_alnum s = list_ex (\<lambda>c. \<not> alnum c) s"

definition loginArgs :: "DockerOptions \<Rightarrow> string list" where
  "loginArgs options =
     (let args = [''login'', ''--username'', user options, ''--password'', password options]
      in if has_non_alnum (registry options) then args @ [registry options] else args)"

section \<open>NodeProjectVersioner\<close>

text \<open>\<open>s.split("/").join(".")\<close>: every slash becomes a dot.\<close>

definition split_join :: "string \<Rightarrow> string" where
  "split_join s = map (\<lambda>c. if c = CHR ''/'' then CHR ''.'' else c) s"

text \<open>
  Lines 24-25; \<open>goalBranch\<close> is \<open>sdmGoal.branch\<close> and \<open>defaultBranch\<close> is
  \<open>sdmGoal.push.repo.defaultBranch\<close>.
\<close>

definition branchSuffix :: "string \<Rightarrow> string \<Rightarrow> string" where
  "branchSuffix goalBranch defaultBranch =
     (let b = split_join goalBranch
      in if b \<noteq> defaultBranch then b @ ''.'' else [])"

text \<open>
  The version string the versioner returns: \<open>pjVersion\<close> is \<open>pj.version\<close> as the template
  literal renders it, \<open>now\<close> is \<open>df(new Date(), "yyyymmddHHMMss")\<close>.  The exit code of
  the \<open>npm version\<close> subprocess is not inspected, so it does not appear.
\<close>

definition NodeProjectVersioner :: "string \<Rightarrow> string \<Rightarrow> string \<Rightarrow> string \<Rightarrow> string" where
  "NodeProjectVersioner pjVersion goalBranch defaultBranch now =
     pjVersion @ ''-'' @ branchSuffix goalBranch defaultBranch @ now"

section \<open>executeDockerBuild\<close>

text \<open>
  What the pipeline did, in order: each external call it made and, for the calls whose
  exit code it inspects, what the call returned.
\<close>

datatype step =
    Preparation nat "ExecuteGoalResult promise"
  | ImageNameCreator
  | DockerfileFinder
  | Spawn string "string list" "ExecuteGoalResult promise"
  | PostLinkImageWebhook string

text \<open>
  The functions the modules import from outside this repository, as what they return when
  called: \<open>spawnAndWatch\<close> maps the arguments of a command to its outcome,
  \<open>postLinkImageWebhook\<close> maps the image to the acknowledgement, \<open>readSdmVersion\<close>
  yields the persisted version (the empty string when there is none), \<open>createTag\<close>
  and \<open>createTagReference\<close> map the tag name to \<open>None\<close> or the exception thrown.
\<close>

record Imports =
  spawnAndWatch :: "string list \<Rightarrow> ExecuteGoalResult promise"
  postLinkImageWebhook :: "string \<Rightarrow> bool promise"
  readSdmVersion :: "string promise"
  createTag :: "string \<Rightarrow> exn option"
  createTagReference :: "string \<Rightarrow> exn option"

text \<open>
  The \<open>for\<close> loop over the preparations (lines 134-139): \<open>Some out\<close> when the loop left
  the function (a non-zero code, or an exception), \<open>None\<close> when it ran to its end.
\<close>

fun runPreparations ::
  "nat \<Rightarrow> ExecuteGoalResult promise list \<Rightarrow> step list \<times> ExecuteGoalResult promise option" where
  "runPreparations i [] = ([], None)"
| "runPreparations i (Inl e # ps) = ([Preparation i (Inl e)], Some (Inl e))"
| "runPreparations i (Inr pResult # ps) =
     (if code pResult \<noteq> 0 then ([Preparation i (Inr pResult)], Some (Inr pResult))
      else (case runPreparations (Suc i) ps of
              (t, out) \<Rightarrow> (Preparation i (Inr pResult) # t, out)))"

text \<open>Step 4 (lines 200-210): the image link.\<close>

definition createImageLink ::
  "Imports \<Rightarrow> string \<Rightarrow> ExecuteGoalResult \<Rightarrow> step list \<times> ExecuteGoalResult promise" where
  "createImageLink env img result =
     (case postLinkImageWebhook env img of
        Inl e \<Rightarrow> ([PostLinkImageWebhook img], Inl e)
      | Inr ack \<Rightarrow>
          if ack then ([PostLinkImageWebhook img], Inr result)
          else ([PostLinkImageWebhook img],
                Inr \<lparr>code = 1, message = Some ''Image link failed''\<rparr>))"

text \<open>Steps 1 to 3 (lines 153-198): login, build, push, each left at a non-zero code.\<close>

definition dockerCommands ::
  "Imports \<Rightarrow> DockerOptions \<Rightarrow> string \<Rightarrow> string \<Rightarrow> string
     \<Rightarrow> step list \<times> ExecuteGoalResult promise" where
  "dockerCommands env options cwd img dockerfilePath =
     (let login = loginArgs options;
          build = [''build'', ''.'', ''-f'', dockerfilePath, ''-t'', img];
          push = [''push'', img]
      in case spawnAndWatch env login of
           Inl e \<Rightarrow> ([Spawn cwd login (Inl e)], Inl e)
         | Inr r1 \<Rightarrow>
             if code r1 \<noteq> 0 then ([Spawn cwd login (Inr r1)], Inr r1)
             else (case spawnAndWatch env build of
                Inl e \<Rightarrow> ([Spawn cwd login (Inr r1), Spawn cwd build (Inl e)], Inl e)
              | Inr r2 \<Rightarrow>
                  if code r2 \<noteq> 0
                  then ([Spawn cwd login (Inr r1), Spawn cwd build (Inr r2)], Inr r2)
                  else (case spawnAndWatch env push of
                     Inl e \<Rightarrow>
                       ([Spawn cwd login (Inr r1), Spawn cwd build (Inr r2),
                         Spawn cwd push (Inl e)], Inl e)
                   | Inr r3 \<Rightarrow>
                       if code r3 \<noteq> 0
                       then ([Spawn cwd login (Inr r1), Spawn cwd build (Inr r2),
                              Spawn cwd push (Inr r3)], Inr r3)
                       else (case createImageLink env img r3 of
                          (t, out) \<Rightarrow>
                            ([Spawn cwd login (Inr r1), Spawn cwd build (Inr r2),
                              Spawn cwd push (Inr r3)] @ t, out)))))"

text \<open>
  Line 151: \<open>await (options.dockerfileFinder ? options.dockerfileFinder(p) : "Dockerfile")\<close>.
\<close>

definition findDockerfile :: "DockerOptions \<Rightarrow> step list \<times> string promise" where
  "findDockerfile options =
     (case dockerfileFinder options of
        None \<Rightarrow> ([], Inr ''Dockerfile'')
      | Some found \<Rightarrow> ([DockerfileFinder], found))"

text \<open>Lines 149-151: the image name and the Dockerfile path, then the commands.\<close>

definition resolveAndRun ::
  "Imports \<Rightarrow> (string \<times> string \<times> string) promise \<Rightarrow> DockerOptions \<Rightarrow> string
     \<Rightarrow> step list \<times> ExecuteGoalResult promise" where
  "resolveAndRun env imageNameCreator options cwd =
     (case imageNameCreator of
        Inl e \<Rightarrow> ([ImageNameCreator], Inl e)
      | Inr (reg, nm, ver) \<Rightarrow>
          (let img = reg @ ''/'' @ nm @ '':'' @ ver
           in case findDockerfile options of
                (t, Inl e) \<Rightarrow> (ImageNameCreator # t, Inl e)
              | (t, Inr dockerfilePath) \<Rightarrow>
                  (case dockerCommands env options cwd img dockerfilePath of
                     (t', out) \<Rightarrow> (ImageNameCreator # t @ t', out))))"

text \<open>
  The goal executor.  \<open>projectLoader\<close> is what \<open>doWithProject\<close> hands to its body: the
  project's \<open>baseDir\<close>, or the exception of a failed load; \<open>imageNameCreator\<close> is what
  the name creator yields (registry, name, version); \<open>preparations\<close> holds what each
  preparation returns when called.  The result is the list of calls made and the returned
  value, or the exception the returned promise is rejected with.
\<close>

definition executeDockerBuild ::
  "string promise \<Rightarrow> (string \<times> string \<times> string) promise \<Rightarrow> ExecuteGoalResult promise list
     \<Rightarrow> DockerOptions \<Rightarrow> Imports \<Rightarrow> step list \<times> ExecuteGoalResult promise" where
  "executeDockerBuild projectLoader imageNameCreator preparations options env =
     (case projectLoader of
        Inl e \<Rightarrow> ([], Inl e)
      | Inr baseDir \<Rightarrow>
          (case runPreparations 0 preparations of
             (t, Some out) \<Rightarrow> (t, out)
           | (t, None) \<Rightarrow>
               (case resolveAndRun env imageNameCreator options baseDir of
                  (t', out) \<Rightarrow> (t @ t', out))))"

text \<open>The steps whose exit code the pipeline inspects, with the code they returned.\<close>

fun returned_nonzero :: "step \<Rightarrow> bool" where
  "returned_nonzero (Preparation i (Inr r)) = (code r \<noteq> 0)"
| "returned_nonzero (Spawn cwd args (Inr r)) = (code r \<noteq> 0)"
| "returned_nonzero s = False"

definition exited_zero :: "ExecuteGoalResult promise \<Rightarrow> bool" where
  "exited_zero out = (case out of Inl e \<Rightarrow> False | Inr r \<Rightarrow> code r = 0)"

fun returned :: "step \<Rightarrow> ExecuteGoalResult promise option" where
  "returned (Preparation i out) = Some out"
| "returned (Spawn cwd args out) = Some out"
| "returned s = None"

section \<open>Tags (executeTag.ts)\<close>

text \<open>
  What the tagging step and the builder did, in order.  A status update carries the
  \<open>url\<close> of the running build (\<open>None\<close> for \<open>undefined\<close>), the state, the branch and the
  build number; tag events carry the tag name; the logger and progress-log events carry
  the format string of the source.
\<close>

datatype BuildStatus = Started | Failed | Error | Passed | Canceled

type_synonym RepoKey = "string \<times> string \<times> string"

record SdmBuildIdentifier =
  "identifier" :: string
  repo :: RepoKey

datatype event =
    Query RepoKey
  | Send SdmBuildIdentifier
  | StartBuild
  | UpdateBuildStatus "string option" BuildStatus string string
  | ReadSdmVersion
  | CreateTag string
  | CreateTagReference string
  | StoreFile string
  | LinkImage string
  | LoggerWarn string
  | LogWrite string

text \<open>\<open>createTagForStatus\<close> (lines 50-69): the tag object, then its reference.\<close>

definition createTagForStatus :: "Imports \<Rightarrow> string \<Rightarrow> event list \<times> unit promise" where
  "createTagForStatus env version =
     (case createTag env version of
        Some e \<Rightarrow> ([CreateTag version], Inl e)
      | None \<Rightarrow>
          (case createTagReference env version of
             Some e \<Rightarrow> ([CreateTag version, CreateTagReference version], Inl e)
           | None \<Rightarrow> ([CreateTag version, CreateTagReference version], Inr ())))"

text \<open>\<open>executeTag\<close> (lines 34-48); \<open>projectLoader\<close> as in \<open>executeDockerBuild\<close>.\<close>

definition executeTag :: "string promise \<Rightarrow> Imports \<Rightarrow> event list \<times> ExecuteGoalResult promise" where
  "executeTag projectLoader env =
     (case projectLoader of
        Inl e \<Rightarrow> ([], Inl e)
      | Inr baseDir \<Rightarrow>
          (case readSdmVersion env of
             Inl e \<Rightarrow> ([ReadSdmVersion], Inl e)
           | Inr version \<Rightarrow>
               (case createTagForStatus env version of
                  (t, Inl e) \<Rightarrow> (ReadSdmVersion # t, Inl e)
                | (t, Inr u) \<Rightarrow> (ReadSdmVersion # t, Inr Success))))"

section \<open>Build identifiers (LocalBuilder.obtainBuildIdentifier)\<close>

text \<open>
  The identifier of a record is a string; the source computes
  \<open>(+buildIdentifier.identifier + 1).toString()\<close> on JavaScript numbers, which are
  doubles.  The model gives a value to the strings of decimal digits that denote an
  integer of at most \<open>2 ^ 53\<close>: each of these is a double, and the conversion is exact
  (the empty string converts to 0).  On them \<open>x + 1\<close> is exact below \<open>2 ^ 53\<close>, and
  \<open>2 ^ 53 + 1\<close>, which is no double, rounds to even: back to \<open>2 ^ 53\<close>.  \<open>toString\<close> of
  such an integer is its decimal notation.  Any other identifier (a sign, a fraction, an
  exponent, white space, a larger value, text that is no number) is outside the model:
  \<open>None\<close>.
\<close>

definition digit_char :: "nat \<Rightarrow> char" where
  "digit_char d = char_of (48 + d)"

fun toString :: "nat \<Rightarrow> string" where
  "toString n = (if n < 10 then [digit_char n] else toString (n div 10) @ [digit_char (n mod 10)])"

declare toString.simps [simp del]

definition is_digit :: "char \<Rightarrow> bool" where
  "is_digit c = (48 \<le> (of_char c :: nat) \<and> (of_char c :: nat) \<le> 57)"

definition decimal_value :: "string \<Rightarrow> nat" where
  "decimal_value s = foldl (\<lambda>a c. 10 * a + (of_char c - 48)) 0 s"

definition unary_plus :: "string \<Rightarrow> nat option" where
  "unary_plus s =
     (if list_all is_digit s \<and> decimal_value s \<le> 2 ^ 53 then Some (decimal_value s) else None)"

definition add_one :: "nat \<Rightarrow> nat" where
  "add_one x = (if x < 2 ^ 53 then x + 1 else x)"

record PushThatTriggersBuild =
  owner :: string
  name :: string
  providerId :: string
  branch :: string
  sha :: string

text \<open>
  The handler context: the graph client answers the query for a repository key with the
  \<open>SdmBuildIdentifier\<close> field of the result (\<open>None\<close> when the field is absent) or fails;
  the message client sends a record or throws.
\<close>

record HandlerContext =
  teamId :: string
  graphClient_query :: "RepoKey \<Rightarrow> SdmBuildIdentifier list option promise"
  messageClient_send :: "SdmBuildIdentifier \<Rightarrow> exn option"

text \<open>Lines 230-242: the record to bump.\<close>

definition buildIdentifier :: "PushThatTriggersBuild \<Rightarrow> SdmBuildIdentifier list option \<Rightarrow> SdmBuildIdentifier" where
  "buildIdentifier push result =
     (case result of
        Some [r] \<Rightarrow> r
      | _ \<Rightarrow> \<lparr>identifier = ''0'', repo = (owner push, name push, providerId push)\<rparr>)"

text \<open>Lines 244-247: the bumped record.\<close>

definition bumpedBuildIdentifier :: "SdmBuildIdentifier \<Rightarrow> SdmBuildIdentifier option" where
  "bumpedBuildIdentifier r =
     (case unary_plus (identifier r) of
        None \<Rightarrow> None
      | Some x \<Rightarrow> Some (r\<lparr>identifier := toString (add_one x)\<rparr>))"

definition obtainBuildIdentifier ::
  "HandlerContext \<Rightarrow> PushThatTriggersBuild \<Rightarrow> (event list \<times> string promise) option" where
  "obtainBuildIdentifier ctx push =
     (let key = (owner push, name push, providerId push)
      in case graphClient_query ctx key of
           Inl e \<Rightarrow> Some ([Query key], Inl e)
         | Inr result \<Rightarrow>
             (case bumpedBuildIdentifier (buildIdentifier push result) of
                None \<Rightarrow> None
              | Some bumped \<Rightarrow>
                  (case messageClient_send ctx bumped of
                     Some e \<Rightarrow> Some ([Query key, Send bumped], Inl e)
                   | None \<Rightarrow> Some ([Query key, Send bumped], Inr (identifier bumped)))))"

text \<open>
  Modelled from the spec: the persisted state behind the graph client and the message
  client, which is no code of this repository.  It holds one logical record per
  repository key (owner, name, providerId): the query returns the records of the key, and
  sending a record replaces the records of its key.
\<close>

type_synonym store = "SdmBuildIdentifier list"

definition store_query :: "store \<Rightarrow> RepoKey \<Rightarrow> SdmBuildIdentifier list" where
  "store_query st key = filter (\<lambda>r. repo r = key) st"

definition store_send :: "store \<Rightarrow> SdmBuildIdentifier \<Rightarrow> store" where
  "store_send st r = r # filter (\<lambda>x. repo x \<noteq> repo r) st"

fun persist :: "store \<Rightarrow> event \<Rightarrow> store" where
  "persist st (Send r) = store_send st r"
| "persist st ev = st"

definition context_of :: "string \<Rightarrow> store \<Rightarrow> HandlerContext" where
  "context_of team st =
     \<lparr>teamId = team,
      graphClient_query = (\<lambda>key. Inr (Some (store_query st key))),
      messageClient_send = (\<lambda>r. None)\<rparr>"

text \<open>One allocation against the store, and \<open>n\<close> allocations one after the other.\<close>

definition allocate :: "string \<Rightarrow> store \<Rightarrow> PushThatTriggersBuild \<Rightarrow> (string \<times> store) option" where
  "allocate team st push =
     (case obtainBuildIdentifier (context_of team st) push of
        Some (t, Inr ident) \<Rightarrow> Some (ident, foldl persist st t)
      | _ \<Rightarrow> None)"

fun allocations :: "nat \<Rightarrow> string \<Rightarrow> store \<Rightarrow> PushThatTriggersBuild \<Rightarrow> (string list \<times> store) option" where
  "allocations 0 team st push = Some ([], st)"
| "allocations (Suc n) team st push =
     (case allocate team st push of
        None \<Rightarrow> None
      | Some (ident, st') \<Rightarrow>
          (case allocations n team st' push of
             None \<Rightarrow> None
           | Some (idents, st'') \<Rightarrow> Some (ident # idents, st'')))"

section \<open>LocalBuilder\<close>

record ChildProcessResult = ExecuteGoalResult +
  error :: bool

text \<open>
  A running build: \<open>buildResult\<close> is what awaiting the backend's promise yields;
  an absent \<open>deploymentUnitFile\<close> is the empty string (both are falsy).
\<close>

record LocalBuildInProgress =
  buildResult :: "ChildProcessResult promise"
  deploymentUnitFile :: string
  url :: string

text \<open>
  The builder with its collaborators: the backend's \<open>startBuild\<close>, the status updater
  (\<open>None\<close> when the update succeeds), the artifact store and the configuration value
  \<open>sdm.build.tag\<close>.
\<close>

record LocalBuilder =
  startBuild :: "LocalBuildInProgress promise"
  updateBuildStatus :: "BuildStatus \<Rightarrow> exn option"
  storeFile :: "string \<Rightarrow> string promise"
  sdm_build_tag :: bool

text \<open>\<open>createBuildTag\<close> (lines 252-268).\<close>

definition createBuildTag :: "LocalBuilder \<Rightarrow> Imports \<Rightarrow> string \<Rightarrow> event list \<times> unit promise" where
  "createBuildTag b env buildNo =
     (if sdm_build_tag b then
        (case readSdmVersion env of
           Inl e \<Rightarrow> ([ReadSdmVersion], Inl e)
         | Inr version \<Rightarrow>
             if version \<noteq> [] then
               (case createTagForStatus env (version @ ''+sdm.'' @ buildNo) of
                  (t, out) \<Rightarrow> (ReadSdmVersion # t, out))
             else ([ReadSdmVersion], Inr ()))
      else ([], Inr ()))"

text \<open>\<open>linkArtifact\<close> (lines 271-274).\<close>

definition linkArtifact ::
  "LocalBuilder \<Rightarrow> Imports \<Rightarrow> LocalBuildInProgress \<Rightarrow> event list \<times> unit promise" where
  "linkArtifact b env rb =
     (case storeFile b (deploymentUnitFile rb) of
        Inl e \<Rightarrow> ([StoreFile (deploymentUnitFile rb)], Inl e)
      | Inr imageUrl \<Rightarrow>
          (case postLinkImageWebhook env imageUrl of
             Inl e \<Rightarrow> ([StoreFile (deploymentUnitFile rb), LinkImage imageUrl], Inl e)
           | Inr ack \<Rightarrow> ([StoreFile (deploymentUnitFile rb), LinkImage imageUrl], Inr ())))"

text \<open>
  \<open>onExit\<close> (lines 185-216).  Its body is one \<open>try\<close> whose \<open>catch\<close> logs, so it yields
  events only.
\<close>

definition onExit ::
  "LocalBuilder \<Rightarrow> Imports \<Rightarrow> bool \<Rightarrow> PushThatTriggersBuild \<Rightarrow> LocalBuildInProgress \<Rightarrow> string
     \<Rightarrow> event list" where
  "onExit b env success push rb buildNo =
     (let caught = [LoggerWarn ''Unexpected build exit error: %s'']
      in if success then
           (case updateBuildStatus b Passed of
              Some e \<Rightarrow> UpdateBuildStatus (Some (url rb)) Passed (branch push) buildNo # caught
            | None \<Rightarrow>
                (case createBuildTag b env buildNo of
                   (t, Inl e) \<Rightarrow>
                     UpdateBuildStatus (Some (url rb)) Passed (branch push) buildNo # t @ caught
                 | (t, Inr u) \<Rightarrow>
                     if deploymentUnitFile rb \<noteq> [] then
                       (case linkArtifact b env rb of
                          (t', Inl e) \<Rightarrow>
                            UpdateBuildStatus (Some (url rb)) Passed (branch push) buildNo
                              # t @ t' @ caught
                        | (t', Inr u') \<Rightarrow>
                            UpdateBuildStatus (Some (url rb)) Passed (branch push) buildNo
                              # t @ t')
                     else UpdateBuildStatus (Some (url rb)) Passed (branch push) buildNo
                            # t @ [LoggerWarn ''No artifact generated by build of %j'']))
         else
           (case updateBuildStatus b Failed of
              Some e \<Rightarrow> UpdateBuildStatus (Some (url rb)) Failed (branch push) buildNo # caught
            | None \<Rightarrow> [UpdateBuildStatus (Some (url rb)) Failed (branch push) buildNo]))"

text \<open>The outer \<open>catch\<close> of \<open>initiateBuild\<close> (lines 159-168), entered with \<open>err\<close>.\<close>

definition failedOnStart ::
  "LocalBuilder \<Rightarrow> PushThatTriggersBuild \<Rightarrow> string \<Rightarrow> exn \<Rightarrow> event list \<times> ExecuteGoalResult promise" where
  "failedOnStart b push buildNumber err =
     (let t = [LoggerWarn ''Build on branch %s failed on start: %j - %s'',
               LogWrite ''Build on branch %s failed on start: %j - %s'',
               UpdateBuildStatus None Failed (branch push) buildNumber]
      in case updateBuildStatus b Failed of
           Some e \<Rightarrow> (t, Inl e)
         | None \<Rightarrow> (t, Inr (failure err)))"

text \<open>The outer \<open>try\<close> of \<open>initiateBuild\<close> (lines 127-158) with its \<open>catch\<close>.\<close>

definition runBuild ::
  "LocalBuilder \<Rightarrow> Imports \<Rightarrow> PushThatTriggersBuild \<Rightarrow> string
     \<Rightarrow> event list \<times> ExecuteGoalResult promise" where
  "runBuild b env push buildNumber =
     (case startBuild b of
        Inl err \<Rightarrow>
          (case failedOnStart b push buildNumber err of (t, out) \<Rightarrow> (StartBuild # t, out))
      | Inr rb \<Rightarrow>
          (case updateBuildStatus b Started of
             Some err \<Rightarrow>
               (case failedOnStart b push buildNumber err of
                  (t, out) \<Rightarrow>
                    (StartBuild # UpdateBuildStatus (Some (url rb)) Started (branch push) buildNumber
                       # t, out))
           | None \<Rightarrow>
               (case buildResult rb of
                  Inr br \<Rightarrow>
                    (StartBuild # UpdateBuildStatus (Some (url rb)) Started (branch push) buildNumber
                       # LogWrite ''Build result: ''
                       # onExit b env (\<not> error br) push rb buildNumber,
                     Inr (if error br then \<lparr>code = 1, message = message br\<rparr> else Success))
                | Inl err \<Rightarrow>
                    (StartBuild # UpdateBuildStatus (Some (url rb)) Started (branch push) buildNumber
                       # LoggerWarn ''Build on branch %s failed on run: %j - %s''
                       # LogWrite ''Build failed with: %s''
                       # LogWrite ''err.stack''
                       # onExit b env False push rb buildNumber,
                     Inr (failure err)))))"

text \<open>
  \<open>initiateBuild\<close> (lines 118-169): the build number is obtained before the \<open>try\<close>, so
  an exception of the allocation leaves the function.
\<close>

definition initiateBuild ::
  "LocalBuilder \<Rightarrow> Imports \<Rightarrow> PushThatTriggersBuild \<Rightarrow> HandlerContext
     \<Rightarrow> (event list \<times> ExecuteGoalResult promise) option" where
  "initiateBuild b env push ctx =
     (case obtainBuildIdentifier ctx push of
        None \<Rightarrow> None
      | Some (t, Inl e) \<Rightarrow> Some (t, Inl e)
      | Some (t, Inr buildNumber) \<Rightarrow>
          (case runBuild b env push buildNumber of (t', out) \<Rightarrow> Some (t @ t', out)))"

fun is_status_update :: "event \<Rightarrow> bool" where
  "is_status_update (UpdateBuildStatus u s br n) = True"
| "is_status_update ev = False"

section \<open>executeFingerprinting\<close>

text \<open>
  How one listener call ends: the listener returns a promise that resolves or is
  rejected, or it throws before it returns one.
\<close>

datatype settle = Resolved | Rejected exn | Thrown exn

text \<open>
  The helpers of the SDM the step imports: building the listener invocation, filtering
  the registrations by their push test, and running the actions of the relevant ones.
\<close>

record ('r, 'f) FingerprintImports =
  createPushImpactListenerInvocation :: "exn option"
  relevantCodeActions :: "'r list \<Rightarrow> 'r list promise"
  computeFingerprints :: "'r list \<Rightarrow> 'f list promise"

datatype ('r, 'f) fingerprint_event =
    CreateInvocation
  | RelevantCodeActions
  | ComputeFingerprints "'r list"
  | Notify nat 'f settle

text \<open>
  Lines 53-60: \<open>listeners.map(l => Promise.all(fingerprints.map(fingerprint => l(...))))\<close>.
  Both \<open>map\<close>s call eagerly, listener by listener and, for each, fingerprint by
  fingerprint; a listener that throws ends both.
\<close>

definition notifications ::
  "('f \<Rightarrow> settle) list \<Rightarrow> 'f list \<Rightarrow> ('r, 'f) fingerprint_event list" where
  "notifications listeners fingerprints =
     concat (map (\<lambda>(i, l). map (\<lambda>fingerprint. Notify i fingerprint (l fingerprint)) fingerprints)
                 (enumerate 0 listeners))"

fun until_thrown :: "('r, 'f) fingerprint_event list \<Rightarrow> ('r, 'f) fingerprint_event list" where
  "until_thrown [] = []"
| "until_thrown (Notify i f (Thrown e) # evs) = [Notify i f (Thrown e)]"
| "until_thrown (ev # evs) = ev # until_thrown evs"

text \<open>
  What awaiting the calls yields: the exception a listener threw, else a rejection, else
  nothing.  Which of several rejections \<open>Promise.all\<close> reports depends on the order in
  which they settle; the model reports the first in call order.
\<close>

fun thrown :: "('r, 'f) fingerprint_event list \<Rightarrow> exn option" where
  "thrown [] = None"
| "thrown (Notify i f (Thrown e) # evs) = Some e"
| "thrown (ev # evs) = thrown evs"

fun rejected :: "('r, 'f) fingerprint_event list \<Rightarrow> exn option" where
  "rejected [] = None"
| "rejected (Notify i f (Rejected e) # evs) = Some e"
| "rejected (ev # evs) = rejected evs"

definition promise_all :: "('r, 'f) fingerprint_event list \<Rightarrow> unit promise" where
  "promise_all calls =
     (case thrown calls of
        Some e \<Rightarrow> Inl e
      | None \<Rightarrow> (case rejected calls of Some e \<Rightarrow> Inl e | None \<Rightarrow> Inr ()))"

text \<open>The goal executor (lines 40-63).\<close>

definition executeFingerprinting ::
  "string promise \<Rightarrow> 'r list \<Rightarrow> ('f \<Rightarrow> settle) list \<Rightarrow> ('r, 'f) FingerprintImports
     \<Rightarrow> ('r, 'f) fingerprint_event list \<times> ExecuteGoalResult promise" where
  "executeFingerprinting projectLoader fingerprinters listeners env =
     (if length fingerprinters = 0 then ([], Inr Success)
      else case projectLoader of
        Inl e \<Rightarrow> ([], Inl e)
      | Inr baseDir \<Rightarrow>
          (case createPushImpactListenerInvocation env of
             Some e \<Rightarrow> ([CreateInvocation], Inl e)
           | None \<Rightarrow>
               (case relevantCodeActions env fingerprinters of
                  Inl e \<Rightarrow> ([CreateInvocation, RelevantCodeActions], Inl e)
                | Inr relevantFingerprinters \<Rightarrow>
                    (case computeFingerprints env relevantFingerprinters of
                       Inl e \<Rightarrow>
                         ([CreateInvocation, RelevantCodeActions,
                           ComputeFingerprints relevantFingerprinters], Inl e)
                     | Inr fingerprints \<Rightarrow>
                         (let calls = until_thrown (notifications listeners fingerprints)
                          in (CreateInvocation # RelevantCodeActions
                                # ComputeFingerprints relevantFingerprinters # calls,
                              case promise_all calls of
                                Inl e \<Rightarrow> Inl e
                              | Inr u \<Rightarrow> Inr Success))))))"

fun is_notify :: "('r, 'f) fingerprint_event \<Rightarrow> bool" where
  "is_notify (Notify i f s) = True"
| "is_notify ev = False"

fun threw :: "settle \<Rightarrow> bool" where
  "threw (Thrown e) = True"
| "threw s = False"

section \<open>Auxiliary notions for the proofs\<close>

text \<open>
  A trace is quiet when none of its steps returned a non-zero code; a pipeline run stops
  well when its trace is quiet, or is a quiet trace followed by one last step whose
  outcome is the outcome of the run.
\<close>

definition quiet :: "step list \<Rightarrow> bool" where
  "quiet t = list_all (\<lambda>s. \<not> returned_nonzero s) t"

definition stops :: "step list \<Rightarrow> ExecuteGoalResult promise \<Rightarrow> bool" where
  "stops t out = (quiet t \<or> (\<exists>pre l. t = pre @ [l] \<and> quiet pre \<and> returned l = Some out))"

section \<open>The image publishing pipeline stops at the first non-zero exit code\<close>

lemma quiet_simps [simp]:
  "quiet []"
  "quiet (s # t) = (\<not> returned_nonzero s \<and> quiet t)"
  "quiet (t @ u) = (quiet t \<and> quiet u)"
  by (auto simp: quiet_def)

lemma quiet_last_decomp:
  assumes "pre' @ [l] = pre @ s # post" "quiet pre'" "returned_nonzero s"
  shows "post = [] \<and> s = l"
proof (cases post rule: rev_cases)
  case Nil
  with assms(1) show ?thesis by simp
next
  case (snoc post' x)
  with assms(1) have "pre' = pre @ s # post'" by simp
  with assms(2,3) show ?thesis by simp
qed

lemma quiet_stops: "quiet t \<Longrightarrow> stops t out"
  by (simp add: stops_def)

lemma stops_Cons: "\<not> returned_nonzero s \<Longrightarrow> stops t out \<Longrightarrow> stops (s # t) out"
  unfolding stops_def
  apply (erule disjE)
   apply simp
  apply (rule disjI2)
  apply clarify
  subgoal for pre l by (rule exI [of _ "s # pre"]) simp
  done

lemma stops_append: "quiet u \<Longrightarrow> stops t out \<Longrightarrow> stops (u @ t) out"
  by (induction u) (auto intro: stops_Cons)

lemma runPreparations_None: "runPreparations i ps = (t, None) \<Longrightarrow> quiet t"
  by (induction i ps arbitrary: t rule: runPreparations.induct) (auto split: if_splits prod.splits)

lemma runPreparations_Some: "runPreparations i ps = (t, Some out) \<Longrightarrow> stops t out"
proof (induction i ps arbitrary: t rule: runPreparations.induct)
  case (1 i)
  then show ?case by simp
next
  case (2 i e ps)
  then have "t = [] @ [Preparation i (Inl e)]" "out = Inl e" by auto
  then show ?case unfolding stops_def by (metis quiet_simps(1) returned.simps(1))
next
  case (3 i r ps)
  show ?case
  proof (cases "code r \<noteq> 0")
    case True
    with 3 have "t = [] @ [Preparation i (Inr r)]" "out = Inr r" by auto
    then show ?thesis unfolding stops_def by (metis quiet_simps(1) returned.simps(1))
  next
    case False
    with 3(2) obtain t' where t': "runPreparations (Suc i) ps = (t', Some out)"
      "t = Preparation i (Inr r) # t'"
      by (auto split: prod.splits)
    with 3(1) False have "stops t' out" by simp
    with False t' show ?thesis by (simp add: stops_Cons)
  qed
qed

lemma createImageLink_quiet: "createImageLink env img r = (t, out) \<Longrightarrow> quiet t"
  by (auto simp: createImageLink_def split: sum.splits if_splits)

lemma dockerCommands_stops: "dockerCommands env options cwd img df = (t, out) \<Longrightarrow> stops t out"
  unfolding dockerCommands_def Let_def
  apply (simp split: sum.splits if_splits prod.splits)
  apply (auto simp: stops_def dest: createImageLink_quiet)
  done

lemma findDockerfile_quiet: "findDockerfile options = (t, out) \<Longrightarrow> quiet t"
  by (auto simp: findDockerfile_def split: option.splits)

lemma resolveAndRun_stops:
  assumes "resolveAndRun env creator options cwd = (t, out)"
  shows "stops t out"
proof (cases creator)
  case (Inl e)
  with assms have "quiet t" by (auto simp: resolveAndRun_def)
  then show ?thesis by (rule quiet_stops)
next
  case (Inr triple)
  obtain reg nm ver where nm: "triple = (reg, nm, ver)" by (cases triple)
  obtain u found where u: "findDockerfile options = (u, found)" by (cases "findDockerfile options")
  then have qu: "quiet u" by (rule findDockerfile_quiet)
  show ?thesis
  proof (cases found)
    case (Inl e)
    with assms Inr nm u qu have "quiet t" by (auto simp: resolveAndRun_def)
    then show ?thesis by (rule quiet_stops)
  next
    case found: (Inr path)
    obtain t' out' where c:
      "dockerCommands env options cwd (reg @ ''/'' @ nm @ '':'' @ ver) path = (t', out')"
      by (cases "dockerCommands env options cwd (reg @ ''/'' @ nm @ '':'' @ ver) path")
    with assms Inr nm u found have t: "t = ImageNameCreator # u @ t'" and o: "out = out'"
      by (auto simp: resolveAndRun_def)
    from c have "stops t' out'" by (rule dockerCommands_stops)
    with qu have "stops (u @ t') out'" by (rule stops_append)
    then show ?thesis unfolding t o by (rule stops_Cons [rotated]) simp
  qed
qed

lemma executeDockerBuild_stops:
  assumes "executeDockerBuild projectLoader creator preps options env = (t, out)"
  shows "stops t out"
proof (cases projectLoader)
  case (Inl e)
  with assms have "quiet t" by (auto simp: executeDockerBuild_def)
  then show ?thesis by (rule quiet_stops)
next
  case (Inr baseDir)
  obtain t0 left where p: "runPreparations 0 preps = (t0, left)"
    by (cases "runPreparations 0 preps")
  show ?thesis
  proof (cases left)
    case None
    obtain t' out' where r: "resolveAndRun env creator options baseDir = (t', out')"
      by (cases "resolveAndRun env creator options baseDir")
    with assms Inr p None have t: "t = t0 @ t'" and o: "out = out'"
      by (auto simp: executeDockerBuild_def)
    from p None have "quiet t0" by (simp add: runPreparations_None)
    moreover from r have "stops t' out'" by (rule resolveAndRun_stops)
    ultimately show ?thesis unfolding t o by (rule stops_append)
  next
    case (Some out')
    with assms Inr p have "t = t0" "out = out'" by (auto simp: executeDockerBuild_def)
    with p Some show ?thesis by (simp add: runPreparations_Some)
  qed
qed

lemma runPreparations_all_zero:
  "list_all exited_zero ps \<Longrightarrow> snd (runPreparations i ps) = None"
  by (induction i ps rule: runPreparations.induct)
     (auto simp: exited_zero_def split: prod.splits)

text \<open>
  C2.  Whenever a step of a run of \<open>executeDockerBuild\<close> (a preparation, docker login,
  docker build or docker push) returned a non-zero exit code, nothing was executed after
  that step and the run returns that step's result.
\<close>

theorem executeDockerBuild_short_circuit:
  assumes "executeDockerBuild projectLoader creator preps options env = (pre @ s # post, out)"
    and "returned_nonzero s"
  shows "post = [] \<and> returned s = Some out"
proof -
  from assms(1) have "stops (pre @ s # post) out"
    by (rule executeDockerBuild_stops)
  then consider "quiet (pre @ s # post)"
    | pre' l where "pre @ s # post = pre' @ [l]" "quiet pre'" "returned l = Some out"
    unfolding stops_def by blast
  then show ?thesis
  proof cases
    case 1
    with assms(2) show ?thesis by simp
  next
    case 2
    from quiet_last_decomp [OF 2(1) [symmetric] 2(2) assms(2)] 2(3) show ?thesis by simp
  qed
qed

theorem executeDockerBuild_short_circuit_witness:
  "executeDockerBuild (Inr ''/tmp/p'') (Inr (''r.io'', ''app'', ''1.0''))
     [Inr \<lparr>code = 0, message = None\<rparr>]
     \<lparr>registry = ''r.io'', user = ''u'', password = ''p'', dockerfileFinder = None\<rparr>
     \<lparr>spawnAndWatch = (\<lambda>args. if hd args = ''build'' then Inr \<lparr>code = 2, message = Some ''no''\<rparr>
                               else Inr \<lparr>code = 0, message = None\<rparr>),
      postLinkImageWebhook = (\<lambda>i. Inr True), readSdmVersion = Inr ''1.0'',
      createTag = (\<lambda>t. None), createTagReference = (\<lambda>t. None)\<rparr>
   = ([Preparation 0 (Inr \<lparr>code = 0, message = None\<rparr>), ImageNameCreator,
       Spawn ''/tmp/p'' [''login'', ''--username'', ''u'', ''--password'', ''p'', ''r.io'']
         (Inr \<lparr>code = 0, message = None\<rparr>)]
      @ Spawn ''/tmp/p'' [''build'', ''.'', ''-f'', ''Dockerfile'', ''-t'', ''r.io/app:1.0'']
         (Inr \<lparr>code = 2, message = Some ''no''\<rparr>) # [],
      Inr \<lparr>code = 2, message = Some ''no''\<rparr>)
   \<and> returned_nonzero (Spawn ''/tmp/p'' [''build'', ''.'', ''-f'', ''Dockerfile'', ''-t'', ''r.io/app:1.0'']
         (Inr \<lparr>code = 2, message = Some ''no''\<rparr>))
   \<and> ([] :: step list) = []
   \<and> returned (Spawn ''/tmp/p'' [''build'', ''.'', ''-f'', ''Dockerfile'', ''-t'', ''r.io/app:1.0'']
         (Inr \<lparr>code = 2, message = Some ''no''\<rparr>)) = Some (Inr \<lparr>code = 2, message = Some ''no''\<rparr>)"
proof -
  have run: "executeDockerBuild (Inr ''/tmp/p'') (Inr (''r.io'', ''app'', ''1.0''))
     [Inr \<lparr>code = 0, message = None\<rparr>]
     \<lparr>registry = ''r.io'', user = ''u'', password = ''p'', dockerfileFinder = None\<rparr>
     \<lparr>spawnAndWatch = (\<lambda>args. if hd args = ''build'' then Inr \<lparr>code = 2, message = Some ''no''\<rparr>
                               else Inr \<lparr>code = 0, message = None\<rparr>),
      postLinkImageWebhook = (\<lambda>i. Inr True), readSdmVersion = Inr ''1.0'',
      createTag = (\<lambda>t. None), createTagReference = (\<lambda>t. None)\<rparr>
   = ([Preparation 0 (Inr \<lparr>code = 0, message = None\<rparr>), ImageNameCreator,
       Spawn ''/tmp/p'' [''login'', ''--username'', ''u'', ''--password'', ''p'', ''r.io'']
         (Inr \<lparr>code = 0, message = None\<rparr>)]
      @ Spawn ''/tmp/p'' [''build'', ''.'', ''-f'', ''Dockerfile'', ''-t'', ''r.io/app:1.0'']
         (Inr \<lparr>code = 2, message = Some ''no''\<rparr>) # [],
      Inr \<lparr>code = 2, message = Some ''no''\<rparr>)"
    by (simp add: executeDockerBuild_def resolveAndRun_def findDockerfile_def dockerCommands_def
        loginArgs_def has_non_alnum_def alnum_def Let_def)
  have nz: "returned_nonzero (Spawn ''/tmp/p'' [''build'', ''.'', ''-f'', ''Dockerfile'', ''-t'', ''r.io/app:1.0'']
         (Inr \<lparr>code = 2, message = Some ''no''\<rparr>))"
    by simp
  from executeDockerBuild_short_circuit [OF run nz] run nz show ?thesis by blast
qed

text \<open>
  C4.  When the project loads, every preparation, docker login, docker build and docker
  push exit with code 0, and the image link webhook answers false, the run returns code 1
  with the message "Image link failed"; when the webhook answers true, the run returns
  the result of docker push unchanged.
\<close>

theorem executeDockerBuild_image_link:
  assumes "projectLoader = Inr cwd"
    and "list_all exited_zero preps"
    and "creator = Inr (reg, nm, ver)"
    and "snd (findDockerfile options) = Inr dockerfilePath"
    and "spawnAndWatch env (loginArgs options) = Inr r1" "code r1 = 0"
    and "spawnAndWatch env [''build'', ''.'', ''-f'', dockerfilePath, ''-t'', reg @ ''/'' @ nm @ '':'' @ ver] = Inr r2"
      "code r2 = 0"
    and "spawnAndWatch env [''push'', reg @ ''/'' @ nm @ '':'' @ ver] = Inr r3" "code r3 = 0"
  shows "(postLinkImageWebhook env (reg @ ''/'' @ nm @ '':'' @ ver) = Inr False \<longrightarrow>
            snd (executeDockerBuild projectLoader creator preps options env)
              = Inr \<lparr>code = 1, message = Some ''Image link failed''\<rparr>)
       \<and> (postLinkImageWebhook env (reg @ ''/'' @ nm @ '':'' @ ver) = Inr True \<longrightarrow>
            snd (executeDockerBuild projectLoader creator preps options env) = Inr r3)"
proof -
  obtain t where t: "runPreparations 0 preps = (t, None)"
    using runPreparations_all_zero [OF assms(2), of 0] by (cases "runPreparations 0 preps") auto
  obtain u where u: "findDockerfile options = (u, Inr dockerfilePath)"
    using assms(4) by (cases "findDockerfile options") auto
  show ?thesis
    using assms(1,3,5-10) t u
    by (auto simp: executeDockerBuild_def resolveAndRun_def dockerCommands_def createImageLink_def Let_def
        split: prod.splits)
qed

theorem executeDockerBuild_image_link_witness:
  "snd (executeDockerBuild (Inr ''/tmp/p'') (Inr (''r.io'', ''app'', ''1.0''))
     [Inr \<lparr>code = 0, message = None\<rparr>]
     \<lparr>registry = ''r.io'', user = ''u'', password = ''p'', dockerfileFinder = None\<rparr>
     \<lparr>spawnAndWatch = (\<lambda>args. Inr \<lparr>code = 0, message = Some (hd args)\<rparr>),
      postLinkImageWebhook = (\<lambda>i. Inr False), readSdmVersion = Inr ''1.0'',
      createTag = (\<lambda>t. None), createTagReference = (\<lambda>t. None)\<rparr>)
   = Inr \<lparr>code = 1, message = Some ''Image link failed''\<rparr>
   \<and> snd (executeDockerBuild (Inr ''/tmp/p'') (Inr (''r.io'', ''app'', ''1.0''))
     [Inr \<lparr>code = 0, message = None\<rparr>]
     \<lparr>registry = ''r.io'', user = ''u'', password = ''p'', dockerfileFinder = None\<rparr>
     \<lparr>spawnAndWatch = (\<lambda>args. Inr \<lparr>code = 0, message = Some (hd args)\<rparr>),
      postLinkImageWebhook = (\<lambda>i. Inr True), readSdmVersion = Inr ''1.0'',
      createTag = (\<lambda>t. None), createTagReference = (\<lambda>t. None)\<rparr>)
   = Inr \<lparr>code = 0, message = Some ''push''\<rparr>"
proof -
  let ?opts = "\<lparr>registry = ''r.io'', user = ''u'', password = ''p'', dockerfileFinder = None\<rparr>"
  let ?env = "\<lambda>ack. \<lparr>spawnAndWatch = (\<lambda>args. Inr \<lparr>code = 0, message = Some (hd args)\<rparr>),
      postLinkImageWebhook = (\<lambda>i. Inr ack), readSdmVersion = Inr ''1.0'',
      createTag = (\<lambda>t. None), createTagReference = (\<lambda>t. None)\<rparr>"
  have "snd (executeDockerBuild (Inr ''/tmp/p'') (Inr (''r.io'', ''app'', ''1.0''))
          [Inr \<lparr>code = 0, message = None\<rparr>] ?opts (?env False))
        = Inr \<lparr>code = 1, message = Some ''Image link failed''\<rparr>"
    using executeDockerBuild_image_link [of "Inr ''/tmp/p''" "''/tmp/p''"
        "[Inr \<lparr>code = 0, message = None\<rparr>]" "Inr (''r.io'', ''app'', ''1.0'')"
        "''r.io''" "''app''" "''1.0''"
        ?opts "''Dockerfile''" "?env False" "\<lparr>code = 0, message = Some ''login''\<rparr>"
        "\<lparr>code = 0, message = Some ''build''\<rparr>" "\<lparr>code = 0, message = Some ''push''\<rparr>"]
    by (simp add: exited_zero_def findDockerfile_def loginArgs_def Let_def)
  moreover
  have "snd (executeDockerBuild (Inr ''/tmp/p'') (Inr (''r.io'', ''app'', ''1.0''))
          [Inr \<lparr>code = 0, message = None\<rparr>] ?opts (?env True))
        = Inr \<lparr>code = 0, message = Some ''push''\<rparr>"
    using executeDockerBuild_image_link [of "Inr ''/tmp/p''" "''/tmp/p''"
        "[Inr \<lparr>code = 0, message = None\<rparr>]" "Inr (''r.io'', ''app'', ''1.0'')"
        "''r.io''" "''app''" "''1.0''"
        ?opts "''Dockerfile''" "?env True" "\<lparr>code = 0, message = Some ''login''\<rparr>"
        "\<lparr>code = 0, message = Some ''build''\<rparr>" "\<lparr>code = 0, message = Some ''push''\<rparr>"]
    by (simp add: exited_zero_def findDockerfile_def loginArgs_def Let_def)
  ultimately show ?thesis by simp
qed

section \<open>Build identifiers\<close>

lemma digit_char_props:
  assumes "d < 10"
  shows "is_digit (digit_char d)" and "of_char (digit_char d) - 48 = d"
  using assms by (simp_all add: is_digit_def digit_char_def)

lemma decimal_value_snoc:
  "decimal_value (s @ [c]) = 10 * decimal_value s + (of_char c - 48)"
  by (simp add: decimal_value_def)

lemma decimal_value_toString: "decimal_value (toString n) = n"
proof (induction n rule: toString.induct)
  case (1 n)
  show ?case
  proof (cases "n < 10")
    case True
    then show ?thesis
      using digit_char_props(2) [of n] by (simp add: toString.simps [of n] decimal_value_def)
  next
    case False
    with 1 have "decimal_value (toString (n div 10)) = n div 10" by simp
    with False show ?thesis
      using digit_char_props(2) [of "n mod 10"]
      by (simp add: toString.simps [of n] decimal_value_snoc)
  qed
qed

lemma digits_toString: "list_all is_digit (toString n)"
proof (induction n rule: toString.induct)
  case (1 n)
  show ?case
  proof (cases "n < 10")
    case True
    then show ?thesis
      using digit_char_props(1) [of n] by (simp add: toString.simps [of n])
  next
    case False
    with 1 have "list_all is_digit (toString (n div 10))" by simp
    with False show ?thesis
      using digit_char_props(1) [of "n mod 10"] by (simp add: toString.simps [of n])
  qed
qed

lemma toString_inject: "toString a = toString b \<Longrightarrow> a = b"
  by (metis decimal_value_toString)

lemma unary_plus_toString: "n \<le> 2 ^ 53 \<Longrightarrow> unary_plus (toString n) = Some n"
  by (simp add: unary_plus_def digits_toString decimal_value_toString)

lemma toString_0: "toString 0 = ''0''" and toString_1: "toString (Suc 0) = ''1''"
  by code_simp+

lemma unary_plus_0: "unary_plus ''0'' = Some 0"
  using unary_plus_toString [of 0] by (simp add: toString_0)

lemma bumped_fresh:
  "bumpedBuildIdentifier \<lparr>identifier = ''0'', repo = key\<rparr> = Some \<lparr>identifier = ''1'', repo = key\<rparr>"
  by (simp add: bumpedBuildIdentifier_def unary_plus_0 add_one_def toString_1)

lemma bumped_exact:
  "unary_plus (identifier r) = Some v \<Longrightarrow> v < 2 ^ 53 \<Longrightarrow>
     bumpedBuildIdentifier r = Some (r\<lparr>identifier := toString (Suc v)\<rparr>)"
  by (simp add: bumpedBuildIdentifier_def add_one_def)

lemma buildIdentifier_single: "buildIdentifier push (Some [r]) = r"
  by (simp add: buildIdentifier_def)

lemma buildIdentifier_other:
  assumes "\<And>rs. result = Some rs \<Longrightarrow> length rs \<noteq> 1"
  shows "buildIdentifier push result
           = \<lparr>identifier = ''0'', repo = (owner push, name push, providerId push)\<rparr>"
proof (cases result)
  case None
  then show ?thesis by (simp add: buildIdentifier_def)
next
  case (Some rs)
  with assms have "length rs \<noteq> 1" by simp
  with Some show ?thesis
    by (cases rs; cases "tl rs") (auto simp: buildIdentifier_def)
qed

text \<open>
  C10.  Whenever the query returns a list of records whose length is not one (or no list
  at all), the record taken is the fresh one with identifier "0", the record sent has
  identifier "1", and "1" is what the allocation returns once the record is sent: more
  than one record resets the counter.
\<close>

theorem obtainBuildIdentifier_not_one_record:
  assumes "graphClient_query ctx (owner push, name push, providerId push) = Inr result"
    and "\<And>rs. result = Some rs \<Longrightarrow> length rs \<noteq> 1"
  shows "buildIdentifier push result
           = \<lparr>identifier = ''0'', repo = (owner push, name push, providerId push)\<rparr>
       \<and> obtainBuildIdentifier ctx push
           = Some ([Query (owner push, name push, providerId push),
                    Send \<lparr>identifier = ''1'', repo = (owner push, name push, providerId push)\<rparr>],
                   case messageClient_send ctx
                          \<lparr>identifier = ''1'', repo = (owner push, name push, providerId push)\<rparr> of
                     None \<Rightarrow> Inr ''1''
                   | Some e \<Rightarrow> Inl e)"
proof -
  have fresh: "buildIdentifier push result
           = \<lparr>identifier = ''0'', repo = (owner push, name push, providerId push)\<rparr>"
    using assms(2) by (rule buildIdentifier_other)
  with assms(1) show ?thesis
    by (simp add: obtainBuildIdentifier_def bumped_fresh Let_def split: option.splits)
qed

theorem obtainBuildIdentifier_not_one_record_witness:
  "obtainBuildIdentifier
     \<lparr>teamId = ''T'',
      graphClient_query = (\<lambda>key. Inr (Some [\<lparr>identifier = ''5'', repo = key\<rparr>,
                                              \<lparr>identifier = ''7'', repo = key\<rparr>])),
      messageClient_send = (\<lambda>r. None)\<rparr>
     \<lparr>owner = ''o'', name = ''n'', providerId = ''p'', branch = ''master'', sha = ''abc''\<rparr>
   = Some ([Query (''o'', ''n'', ''p''), Send \<lparr>identifier = ''1'', repo = (''o'', ''n'', ''p'')\<rparr>],
           Inr ''1'')"
  using obtainBuildIdentifier_not_one_record
    [of "\<lparr>teamId = ''T'',
      graphClient_query = (\<lambda>key. Inr (Some [\<lparr>identifier = ''5'', repo = key\<rparr>,
                                              \<lparr>identifier = ''7'', repo = key\<rparr>])),
      messageClient_send = (\<lambda>r. None)\<rparr>"
     "\<lparr>owner = ''o'', name = ''n'', providerId = ''p'', branch = ''master'', sha = ''abc''\<rparr>"
     "Some [\<lparr>identifier = ''5'', repo = (''o'', ''n'', ''p'')\<rparr>,
            \<lparr>identifier = ''7'', repo = (''o'', ''n'', ''p'')\<rparr>]"]
  by simp

lemma store_query_send:
  "repo r = key \<Longrightarrow> store_query (store_send st r) key = [r]"
  by (induction st) (auto simp: store_query_def store_send_def)

lemma allocate_fresh:
  assumes "store_query st (owner push, name push, providerId push) = []"
  shows "allocate team st push
           = Some (''1'', store_send st \<lparr>identifier = ''1'',
                                           repo = (owner push, name push, providerId push)\<rparr>)"
  using assms
  by (simp add: allocate_def obtainBuildIdentifier_def context_of_def buildIdentifier_def
      bumped_fresh Let_def)

lemma allocate_single:
  assumes "store_query st (owner push, name push, providerId push) = [r]"
    and "unary_plus (identifier r) = Some v" and "v < 2 ^ 53"
  shows "allocate team st push
           = Some (toString (Suc v), store_send st (r\<lparr>identifier := toString (Suc v)\<rparr>))"
  using assms
  by (simp add: allocate_def obtainBuildIdentifier_def context_of_def buildIdentifier_def
      bumped_exact Let_def)

text \<open>The state of the counter of a key: no record yet, or one record holding \<open>v\<close>.\<close>

lemma allocations_from:
  assumes "store_query st (owner push, name push, providerId push) = [r]"
    and "repo r = (owner push, name push, providerId push)"
    and "unary_plus (identifier r) = Some v" and "v + n \<le> 2 ^ 53"
  shows "\<exists>st'. allocations n team st push = Some (map toString [Suc v ..< Suc (v + n)], st')"
  using assms
proof (induction n arbitrary: st r v)
  case 0
  then show ?case by simp
next
  case (Suc n)
  let ?r = "r\<lparr>identifier := toString (Suc v)\<rparr>"
  let ?st = "store_send st ?r"
  from Suc.prems have v: "v < 2 ^ 53" and v': "Suc v \<le> 2 ^ 53" and n: "Suc v + n \<le> 2 ^ 53"
    by simp_all
  from Suc.prems(1,3) v have a: "allocate team st push = Some (toString (Suc v), ?st)"
    by (rule allocate_single)
  from Suc.prems(2) have q: "store_query ?st (owner push, name push, providerId push) = [?r]"
    by (simp add: store_query_send)
  have u: "unary_plus (identifier ?r) = Some (Suc v)"
    using v' by (simp add: unary_plus_toString)
  from Suc.prems(2) have k: "repo ?r = (owner push, name push, providerId push)" by simp
  from Suc.IH [OF q k u n] obtain st' where
    "allocations n team ?st push = Some (map toString [Suc (Suc v) ..< Suc (Suc v + n)], st')"
    by blast
  with a have "allocations (Suc n) team st push
      = Some (toString (Suc v) # map toString [Suc (Suc v) ..< Suc (Suc v + n)], st')"
    by simp
  moreover have "[Suc v ..< Suc (v + Suc n)] = Suc v # [Suc (Suc v) ..< Suc (Suc v + n)]"
    by (simp add: upt_rec)
  ultimately show ?case by auto
qed

lemma allocations_unseen:
  assumes "store_query st (owner push, name push, providerId push) = []" and "n \<le> 2 ^ 53"
  shows "\<exists>st'. allocations n team st push = Some (map toString [1 ..< Suc n], st')"
proof (cases n)
  case 0
  then show ?thesis by simp
next
  case (Suc m)
  let ?r = "\<lparr>identifier = ''1'', repo = (owner push, name push, providerId push)\<rparr>"
  from assms(1) have a: "allocate team st push = Some (''1'', store_send st ?r)"
    by (rule allocate_fresh)
  have q: "store_query (store_send st ?r) (owner push, name push, providerId push) = [?r]"
    by (simp add: store_query_send)
  have u: "unary_plus (identifier ?r) = Some 1"
    using unary_plus_toString [of 1] by (simp add: toString_1)
  from assms(2) Suc have "1 + m \<le> (2::nat) ^ 53" by simp
  from allocations_from [OF q _ u this] obtain st' where
    "allocations m team (store_send st ?r) push = Some (map toString [Suc 1 ..< Suc (1 + m)], st')"
    by auto
  with a Suc have "allocations n team st push
      = Some (''1'' # map toString [Suc 1 ..< Suc (1 + m)], st')"
    by simp
  moreover have "[1 ..< Suc n] = 1 # [Suc 1 ..< Suc (1 + m)]"
    using Suc by (simp add: upt_rec)
  ultimately show ?thesis by (auto simp: toString_1)
qed

lemma distinct_toString: "distinct xs \<Longrightarrow> distinct (map toString xs)"
  by (simp add: distinct_map inj_on_def) (metis toString_inject)

text \<open>
  C1, as the code has it.  With no record for the repository key the allocation sends the
  record with identifier "1" and returns "1".  With exactly one record whose identifier
  denotes \<open>v\<close> below \<open>2 ^ 53\<close> it sends that record with the identifier of \<open>v + 1\<close> and
  then returns the string of \<open>v + 1\<close>.  For a repository not seen before, the first \<open>n\<close>
  allocations, \<open>n\<close> at most \<open>2 ^ 53\<close>, return "1" to "n" in this order, all different.
\<close>

theorem obtainBuildIdentifier_allocates:
  "(graphClient_query ctx (owner push, name push, providerId push) = Inr result
      \<and> (result = None \<or> result = Some [])
      \<and> messageClient_send ctx \<lparr>identifier = ''1'', repo = (owner push, name push, providerId push)\<rparr> = None
    \<longrightarrow> obtainBuildIdentifier ctx push
          = Some ([Query (owner push, name push, providerId push),
                   Send \<lparr>identifier = ''1'', repo = (owner push, name push, providerId push)\<rparr>],
                  Inr ''1''))
   \<and> (graphClient_query ctx (owner push, name push, providerId push) = Inr (Some [r])
      \<and> unary_plus (identifier r) = Some v \<and> v < 2 ^ 53
      \<and> messageClient_send ctx (r\<lparr>identifier := toString (v + 1)\<rparr>) = None
    \<longrightarrow> obtainBuildIdentifier ctx push
          = Some ([Query (owner push, name push, providerId push),
                   Send (r\<lparr>identifier := toString (v + 1)\<rparr>)],
                  Inr (toString (v + 1))))
   \<and> (store_query st (owner push, name push, providerId push) = [] \<and> n \<le> 2 ^ 53
    \<longrightarrow> (\<exists>st'. allocations n team st push = Some (map toString [1 ..< Suc n], st'))
        \<and> distinct (map toString [1 ..< Suc n]))"
proof (intro conjI impI)
  assume a: "graphClient_query ctx (owner push, name push, providerId push) = Inr result
      \<and> (result = None \<or> result = Some [])
      \<and> messageClient_send ctx \<lparr>identifier = ''1'', repo = (owner push, name push, providerId push)\<rparr> = None"
  then show "obtainBuildIdentifier ctx push
          = Some ([Query (owner push, name push, providerId push),
                   Send \<lparr>identifier = ''1'', repo = (owner push, name push, providerId push)\<rparr>],
                  Inr ''1'')"
    by (auto simp: obtainBuildIdentifier_def buildIdentifier_def bumped_fresh Let_def)
next
  assume "graphClient_query ctx (owner push, name push, providerId push) = Inr (Some [r])
      \<and> unary_plus (identifier r) = Some v \<and> v < 2 ^ 53
      \<and> messageClient_send ctx (r\<lparr>identifier := toString (v + 1)\<rparr>) = None"
  then show "obtainBuildIdentifier ctx push
          = Some ([Query (owner push, name push, providerId push),
                   Send (r\<lparr>identifier := toString (v + 1)\<rparr>)],
                  Inr (toString (v + 1)))"
    by (simp add: obtainBuildIdentifier_def buildIdentifier_def bumped_exact Let_def)
next
  assume "store_query st (owner push, name push, providerId push) = [] \<and> n \<le> 2 ^ 53"
  then have "store_query st (owner push, name push, providerId push) = []" and "n \<le> 2 ^ 53"
    by blast+
  then show "\<exists>st'. allocations n team st push = Some (map toString [1 ..< Suc n], st')"
    by (rule allocations_unseen)
next
  show "distinct (map toString [1 ..< Suc n])"
    by (rule distinct_toString) simp
qed

lemma is_digit_chars:
  "is_digit CHR ''0''" "is_digit CHR ''1''" "is_digit CHR ''2''" "is_digit CHR ''3''"
  "is_digit CHR ''4''" "is_digit CHR ''5''" "is_digit CHR ''6''" "is_digit CHR ''7''"
  "is_digit CHR ''8''" "is_digit CHR ''9''"
  by (simp_all add: is_digit_def)

lemma digit_chars:
  "digit_char 0 = CHR ''0''" "digit_char (Suc 0) = CHR ''1''" "digit_char 2 = CHR ''2''"
  "digit_char 3 = CHR ''3''" "digit_char 4 = CHR ''4''" "digit_char 5 = CHR ''5''"
  "digit_char 6 = CHR ''6''" "digit_char 7 = CHR ''7''" "digit_char 8 = CHR ''8''"
  "digit_char 9 = CHR ''9''"
  by code_simp+

lemma decimal_value_2_53: "decimal_value ''9007199254740992'' = 9007199254740992"
  by (simp add: decimal_value_def)

lemma digits_2_53: "list_all is_digit ''9007199254740992''"
  by (simp add: is_digit_chars)

lemma unary_plus_2_53: "unary_plus ''9007199254740992'' = Some 9007199254740992"
  by (simp only: unary_plus_def decimal_value_2_53 digits_2_53) simp

lemma toString_2_53: "toString 9007199254740992 = ''9007199254740992''"
  by (simp add: toString.simps digit_chars)

lemma bumped_2_53:
  "bumpedBuildIdentifier \<lparr>identifier = ''9007199254740992'', repo = key\<rparr>
     = Some \<lparr>identifier = ''9007199254740992'', repo = key\<rparr>"
  by (simp add: bumpedBuildIdentifier_def unary_plus_2_53 add_one_def toString_2_53)

lemma allocate_2_53:
  "allocate team [\<lparr>identifier = ''9007199254740992'', repo = (''o'', ''n'', ''p'')\<rparr>]
     \<lparr>owner = ''o'', name = ''n'', providerId = ''p'', branch = b, sha = s\<rparr>
   = Some (''9007199254740992'', [\<lparr>identifier = ''9007199254740992'', repo = (''o'', ''n'', ''p'')\<rparr>])"
  by (simp add: allocate_def obtainBuildIdentifier_def context_of_def store_query_def
      store_send_def buildIdentifier_def bumped_2_53 Let_def)

text \<open>
  At \<open>2 ^ 53\<close> the claim fails: \<open>2 ^ 53 + 1\<close> is no JavaScript number, the sum rounds back
  to \<open>2 ^ 53\<close>, and the allocation returns the identifier it read; two allocations in a
  row return the same identifier.
\<close>

theorem obtainBuildIdentifier_counterexample:
  "obtainBuildIdentifier
     \<lparr>teamId = ''T'',
      graphClient_query = (\<lambda>key. Inr (Some [\<lparr>identifier = ''9007199254740992'', repo = key\<rparr>])),
      messageClient_send = (\<lambda>r. None)\<rparr>
     \<lparr>owner = ''o'', name = ''n'', providerId = ''p'', branch = ''master'', sha = ''abc''\<rparr>
   = Some ([Query (''o'', ''n'', ''p''),
            Send \<lparr>identifier = ''9007199254740992'', repo = (''o'', ''n'', ''p'')\<rparr>],
           Inr ''9007199254740992'')
   \<and> unary_plus ''9007199254740992'' = Some 9007199254740992
   \<and> toString (9007199254740992 + 1) \<noteq> ''9007199254740992''
   \<and> map_option fst
        (allocations 2 ''T'' [\<lparr>identifier = ''9007199254740992'', repo = (''o'', ''n'', ''p'')\<rparr>]
           \<lparr>owner = ''o'', name = ''n'', providerId = ''p'', branch = ''master'', sha = ''abc''\<rparr>)
     = Some [''9007199254740992'', ''9007199254740992'']"
proof (intro conjI)
  show "obtainBuildIdentifier
     \<lparr>teamId = ''T'',
      graphClient_query = (\<lambda>key. Inr (Some [\<lparr>identifier = ''9007199254740992'', repo = key\<rparr>])),
      messageClient_send = (\<lambda>r. None)\<rparr>
     \<lparr>owner = ''o'', name = ''n'', providerId = ''p'', branch = ''master'', sha = ''abc''\<rparr>
   = Some ([Query (''o'', ''n'', ''p''),
            Send \<lparr>identifier = ''9007199254740992'', repo = (''o'', ''n'', ''p'')\<rparr>],
           Inr ''9007199254740992'')"
    by (simp add: obtainBuildIdentifier_def buildIdentifier_def bumped_2_53 Let_def)
  show "unary_plus ''9007199254740992'' = Some 9007199254740992"
    by (rule unary_plus_2_53)
  show "toString (9007199254740992 + 1) \<noteq> ''9007199254740992''"
    using toString_inject [of "9007199254740992 + 1" 9007199254740992] toString_2_53 by auto
  show "map_option fst
        (allocations 2 ''T'' [\<lparr>identifier = ''9007199254740992'', repo = (''o'', ''n'', ''p'')\<rparr>]
           \<lparr>owner = ''o'', name = ''n'', providerId = ''p'', branch = ''master'', sha = ''abc''\<rparr>)
     = Some [''9007199254740992'', ''9007199254740992'']"
    by (simp add: numeral_2_eq_2 allocate_2_53)
qed

theorem obtainBuildIdentifier_allocates_witness:
  "obtainBuildIdentifier
     \<lparr>teamId = ''T'', graphClient_query = (\<lambda>key. Inr (Some [])), messageClient_send = (\<lambda>r. None)\<rparr>
     \<lparr>owner = ''o'', name = ''n'', providerId = ''p'', branch = ''master'', sha = ''abc''\<rparr>
   = Some ([Query (''o'', ''n'', ''p''), Send \<lparr>identifier = ''1'', repo = (''o'', ''n'', ''p'')\<rparr>],
           Inr ''1'')
   \<and> obtainBuildIdentifier
     \<lparr>teamId = ''T'',
      graphClient_query = (\<lambda>key. Inr (Some [\<lparr>identifier = ''41'', repo = key\<rparr>])),
      messageClient_send = (\<lambda>r. None)\<rparr>
     \<lparr>owner = ''o'', name = ''n'', providerId = ''p'', branch = ''master'', sha = ''abc''\<rparr>
   = Some ([Query (''o'', ''n'', ''p''), Send \<lparr>identifier = ''42'', repo = (''o'', ''n'', ''p'')\<rparr>],
           Inr ''42'')
   \<and> map_option fst
        (allocations 3 ''T'' []
           \<lparr>owner = ''o'', name = ''n'', providerId = ''p'', branch = ''master'', sha = ''abc''\<rparr>)
     = Some [''1'', ''2'', ''3'']
   \<and> distinct [''1'', ''2'', ''3'']"
proof -
  let ?push = "\<lparr>owner = ''o'', name = ''n'', providerId = ''p'', branch = ''master'', sha = ''abc''\<rparr>"
  let ?ctx0 = "\<lparr>teamId = ''T'', graphClient_query = (\<lambda>key. Inr (Some [])),
      messageClient_send = (\<lambda>r. None)\<rparr>"
  let ?ctx1 = "\<lparr>teamId = ''T'',
      graphClient_query = (\<lambda>key. Inr (Some [\<lparr>identifier = ''41'', repo = key\<rparr>])),
      messageClient_send = (\<lambda>r. None)\<rparr>"
  have t: "toString 42 = ''42''" "toString 2 = ''2''" "toString 3 = ''3''"
    by (simp_all add: toString.simps digit_chars)
  have u: "unary_plus ''41'' = Some 41"
    by (simp add: unary_plus_def decimal_value_def is_digit_chars)
  have l: "[1 ..< Suc 3] = [1, 2, 3]"
    by (simp add: upt_rec)
  note w = obtainBuildIdentifier_allocates
    [of ?ctx0 ?push "Some []" "\<lparr>identifier = ''41'', repo = (''o'', ''n'', ''p'')\<rparr>" 41 "[]" 3 "''T''"]
  note w' = obtainBuildIdentifier_allocates
    [of ?ctx1 ?push "Some []" "\<lparr>identifier = ''41'', repo = (''o'', ''n'', ''p'')\<rparr>" 41 "[]" 3 "''T''"]
  from w have "obtainBuildIdentifier ?ctx0 ?push
     = Some ([Query (''o'', ''n'', ''p''), Send \<lparr>identifier = ''1'', repo = (''o'', ''n'', ''p'')\<rparr>],
           Inr ''1'')"
    by simp
  moreover from w' u t have "obtainBuildIdentifier ?ctx1 ?push
     = Some ([Query (''o'', ''n'', ''p''), Send \<lparr>identifier = ''42'', repo = (''o'', ''n'', ''p'')\<rparr>],
           Inr ''42'')"
    by simp
  moreover from w have "map_option fst (allocations 3 ''T'' [] ?push) = Some [''1'', ''2'', ''3'']
      \<and> distinct [''1'', ''2'', ''3'']"
    unfolding l by (auto simp: store_query_def t toString_1)
  ultimately show ?thesis by blast
qed

section \<open>LocalBuilder.initiateBuild\<close>

lemma onExit_caught:
  assumes "updateBuildStatus b Passed = None"
    and "snd (createBuildTag b env buildNo) = Inl e
           \<or> (snd (createBuildTag b env buildNo) = Inr ()
                \<and> deploymentUnitFile rb \<noteq> [] \<and> snd (linkArtifact b env rb) = Inl e)"
  shows "last (onExit b env True push rb buildNo) = LoggerWarn ''Unexpected build exit error: %s''"
  using assms
  by (auto simp: onExit_def Let_def split: prod.splits sum.splits)

text \<open>
  C3.  When the allocation returned a build number, the backend started, the "started"
  update went through and the backend's result reports no error, \<open>initiateBuild\<close> returns
  \<open>Success\<close> (code 0), whatever the status update "passed", the tag creation and the
  artifact link do; when the tag creation or the artifact link throws, the last thing
  \<open>onExit\<close> did was to log the exception.
\<close>

theorem initiateBuild_success_kept:
  assumes "obtainBuildIdentifier ctx push = Some (t0, Inr buildNumber)"
    and "startBuild b = Inr rb"
    and "updateBuildStatus b Started = None"
    and "buildResult rb = Inr br"
    and "\<not> error br"
  shows "(\<exists>t. initiateBuild b env push ctx = Some (t, Inr Success))
       \<and> code Success = 0
       \<and> (updateBuildStatus b Passed = None
            \<and> (snd (createBuildTag b env buildNumber) = Inl e
                 \<or> (snd (createBuildTag b env buildNumber) = Inr ()
                      \<and> deploymentUnitFile rb \<noteq> [] \<and> snd (linkArtifact b env rb) = Inl e))
          \<longrightarrow> (\<exists>t. initiateBuild b env push ctx
                      = Some (t @ [LoggerWarn ''Unexpected build exit error: %s''], Inr Success)))"
proof (intro conjI impI)
  from assms show "\<exists>t. initiateBuild b env push ctx = Some (t, Inr Success)"
    by (simp add: initiateBuild_def runBuild_def)
  show "code Success = 0"
    by (simp add: Success_def)
next
  assume a: "updateBuildStatus b Passed = None
            \<and> (snd (createBuildTag b env buildNumber) = Inl e
                 \<or> (snd (createBuildTag b env buildNumber) = Inr ()
                      \<and> deploymentUnitFile rb \<noteq> [] \<and> snd (linkArtifact b env rb) = Inl e))"
  then have l: "last (onExit b env True push rb buildNumber)
                  = LoggerWarn ''Unexpected build exit error: %s''"
    by (intro onExit_caught) blast+
  have ne: "onExit b env True push rb buildNumber \<noteq> []"
    by (auto simp: onExit_def Let_def split: prod.splits sum.splits option.splits)
  from ne l obtain t' where
    "onExit b env True push rb buildNumber = t' @ [LoggerWarn ''Unexpected build exit error: %s'']"
    by (metis append_butlast_last_id)
  with assms show "\<exists>t. initiateBuild b env push ctx
                      = Some (t @ [LoggerWarn ''Unexpected build exit error: %s''], Inr Success)"
    by (simp add: initiateBuild_def runBuild_def)
qed

theorem initiateBuild_success_kept_witness:
  "initiateBuild
     \<lparr>startBuild = Inr \<lparr>buildResult = Inr \<lparr>code = 0, message = None, error = False\<rparr>,
                         deploymentUnitFile = ''app.jar'', url = ''http://b/1''\<rparr>,
      updateBuildStatus = (\<lambda>s. None),
      storeFile = (\<lambda>f. Inr ''http://store/app.jar''),
      sdm_build_tag = True\<rparr>
     \<lparr>spawnAndWatch = (\<lambda>args. Inr \<lparr>code = 0, message = None\<rparr>),
      postLinkImageWebhook = (\<lambda>i. Inr True), readSdmVersion = Inr ''1.0.0'',
      createTag = (\<lambda>t. Some (Exception ''tag exists'')), createTagReference = (\<lambda>t. None)\<rparr>
     \<lparr>owner = ''o'', name = ''n'', providerId = ''p'', branch = ''master'', sha = ''abc''\<rparr>
     \<lparr>teamId = ''T'', graphClient_query = (\<lambda>key. Inr (Some [])), messageClient_send = (\<lambda>r. None)\<rparr>
   = Some ([Query (''o'', ''n'', ''p''), Send \<lparr>identifier = ''1'', repo = (''o'', ''n'', ''p'')\<rparr>,
            StartBuild, UpdateBuildStatus (Some ''http://b/1'') Started ''master'' ''1'',
            LogWrite ''Build result: '',
            UpdateBuildStatus (Some ''http://b/1'') Passed ''master'' ''1'',
            ReadSdmVersion, CreateTag ''1.0.0+sdm.1'']
           @ [LoggerWarn ''Unexpected build exit error: %s''],
           Inr Success)"
proof -
  let ?rb = "\<lparr>buildResult = Inr \<lparr>code = 0, message = None, error = False\<rparr>,
              deploymentUnitFile = ''app.jar'', url = ''http://b/1''\<rparr>"
  let ?b = "\<lparr>startBuild = Inr ?rb, updateBuildStatus = (\<lambda>s. None),
      storeFile = (\<lambda>f. Inr ''http://store/app.jar''), sdm_build_tag = True\<rparr>"
  let ?env = "\<lparr>spawnAndWatch = (\<lambda>args. Inr \<lparr>code = 0, message = None\<rparr>),
      postLinkImageWebhook = (\<lambda>i. Inr True), readSdmVersion = Inr ''1.0.0'',
      createTag = (\<lambda>t. Some (Exception ''tag exists'')), createTagReference = (\<lambda>t. None)\<rparr>"
  let ?push = "\<lparr>owner = ''o'', name = ''n'', providerId = ''p'', branch = ''master'', sha = ''abc''\<rparr>"
  let ?ctx = "\<lparr>teamId = ''T'', graphClient_query = (\<lambda>key. Inr (Some [])),
      messageClient_send = (\<lambda>r. None)\<rparr>"
  have o: "obtainBuildIdentifier ?ctx ?push
      = Some ([Query (''o'', ''n'', ''p''), Send \<lparr>identifier = ''1'', repo = (''o'', ''n'', ''p'')\<rparr>],
              Inr ''1'')"
    by (simp add: obtainBuildIdentifier_def buildIdentifier_def bumped_fresh Let_def)
  have tag: "snd (createBuildTag ?b ?env ''1'') = Inl (Exception ''tag exists'')"
    by (simp add: createBuildTag_def createTagForStatus_def)
  from initiateBuild_success_kept
    [of ?ctx ?push _ "''1''" ?b ?rb "\<lparr>code = 0, message = None, error = False\<rparr>" ?env
        "Exception ''tag exists''", OF o] tag
  obtain t where "initiateBuild ?b ?env ?push ?ctx
      = Some (t @ [LoggerWarn ''Unexpected build exit error: %s''], Inr Success)"
    by auto
  moreover have "initiateBuild ?b ?env ?push ?ctx
     = Some ([Query (''o'', ''n'', ''p''), Send \<lparr>identifier = ''1'', repo = (''o'', ''n'', ''p'')\<rparr>,
            StartBuild, UpdateBuildStatus (Some ''http://b/1'') Started ''master'' ''1'',
            LogWrite ''Build result: '',
            UpdateBuildStatus (Some ''http://b/1'') Passed ''master'' ''1'',
            ReadSdmVersion, CreateTag ''1.0.0+sdm.1'']
           @ [LoggerWarn ''Unexpected build exit error: %s''], snd (the (initiateBuild ?b ?env ?push ?ctx)))"
    by (simp add: initiateBuild_def o runBuild_def onExit_def createBuildTag_def
        createTagForStatus_def Let_def)
  ultimately show ?thesis by simp
qed

text \<open>
  What \<open>initiateBuild\<close> does when the allocation returned a build number and
  \<open>startBuild\<close> throws: it starts nothing else, logs, issues the one status update
  "failed" with no url, and ends there, with the failing result made from the exception of
  \<open>startBuild\<close> when the update went through and with the exception of the update when it
  did not.
\<close>

lemma initiateBuild_start_failure_trace:
  assumes "obtainBuildIdentifier ctx push = Some (t0, Inr buildNumber)"
    and "startBuild b = Inl err"
  shows "initiateBuild b env push ctx
           = Some (t0 @ [StartBuild,
                         LoggerWarn ''Build on branch %s failed on start: %j - %s'',
                         LogWrite ''Build on branch %s failed on start: %j - %s'',
                         UpdateBuildStatus None Failed (branch push) buildNumber],
                   case updateBuildStatus b Failed of
                     None \<Rightarrow> Inr (failure err)
                   | Some e \<Rightarrow> Inl e)"
  using assms
  by (simp add: initiateBuild_def runBuild_def failedOnStart_def Let_def split: option.splits)

text \<open>
  C6.  The claim says that whenever \<open>startBuild\<close> throws, one status update "failed" is
  issued and a failing result is returned at once.  The code does not return it when the
  status update throws as well: with \<open>startBuild\<close> throwing "no docker" and the update to
  "failed" throwing "status service down", the one update "failed" with no url is issued
  and then the promise of \<open>initiateBuild\<close> is rejected with the exception of the update.
  The path of a build that fails while running does return its failing result with the
  same status updater, since there the update is made inside \<open>onExit\<close>, which catches.
\<close>

theorem initiateBuild_start_failure_update_throws:
  "initiateBuild
     \<lparr>startBuild = Inl (Exception ''no docker''),
      updateBuildStatus = (\<lambda>s. if s = Failed then Some (Exception ''status service down'') else None),
      storeFile = (\<lambda>f. Inr ''http://store/app.jar''), sdm_build_tag = True\<rparr>
     \<lparr>spawnAndWatch = (\<lambda>args. Inr \<lparr>code = 0, message = None\<rparr>),
      postLinkImageWebhook = (\<lambda>i. Inr True), readSdmVersion = Inr ''1.0.0'',
      createTag = (\<lambda>t. None), createTagReference = (\<lambda>t. None)\<rparr>
     \<lparr>owner = ''o'', name = ''n'', providerId = ''p'', branch = ''master'', sha = ''abc''\<rparr>
     \<lparr>teamId = ''T'', graphClient_query = (\<lambda>key. Inr (Some [])), messageClient_send = (\<lambda>r. None)\<rparr>
   = Some ([Query (''o'', ''n'', ''p''), Send \<lparr>identifier = ''1'', repo = (''o'', ''n'', ''p'')\<rparr>,
            StartBuild, LoggerWarn ''Build on branch %s failed on start: %j - %s'',
            LogWrite ''Build on branch %s failed on start: %j - %s'',
            UpdateBuildStatus None Failed ''master'' ''1''],
           Inl (Exception ''status service down''))
   \<and> initiateBuild
     \<lparr>startBuild = Inr \<lparr>buildResult = Inl (Exception ''compiler crashed''),
                         deploymentUnitFile = ''app.jar'', url = ''http://b/1''\<rparr>,
      updateBuildStatus = (\<lambda>s. if s = Failed then Some (Exception ''status service down'') else None),
      storeFile = (\<lambda>f. Inr ''http://store/app.jar''), sdm_build_tag = True\<rparr>
     \<lparr>spawnAndWatch = (\<lambda>args. Inr \<lparr>code = 0, message = None\<rparr>),
      postLinkImageWebhook = (\<lambda>i. Inr True), readSdmVersion = Inr ''1.0.0'',
      createTag = (\<lambda>t. None), createTagReference = (\<lambda>t. None)\<rparr>
     \<lparr>owner = ''o'', name = ''n'', providerId = ''p'', branch = ''master'', sha = ''abc''\<rparr>
     \<lparr>teamId = ''T'', graphClient_query = (\<lambda>key. Inr (Some [])), messageClient_send = (\<lambda>r. None)\<rparr>
   = Some ([Query (''o'', ''n'', ''p''), Send \<lparr>identifier = ''1'', repo = (''o'', ''n'', ''p'')\<rparr>,
            StartBuild, UpdateBuildStatus (Some ''http://b/1'') Started ''master'' ''1'',
            LoggerWarn ''Build on branch %s failed on run: %j - %s'',
            LogWrite ''Build failed with: %s'', LogWrite ''err.stack'',
            UpdateBuildStatus (Some ''http://b/1'') Failed ''master'' ''1'',
            LoggerWarn ''Unexpected build exit error: %s''],
           Inr \<lparr>code = 1, message = Some ''compiler crashed''\<rparr>)"
  by (simp add: initiateBuild_def obtainBuildIdentifier_def buildIdentifier_def bumped_fresh
      runBuild_def failedOnStart_def onExit_def Let_def)

section \<open>The registry argument of docker login\<close>

text \<open>
  C7, as the code has it.  The arguments of docker login are the five fixed ones,
  followed by the registry exactly when the registry has a character outside
  \<open>A-Z\<close>, \<open>a-z\<close>, \<open>0-9\<close>.  So "docker.io", which has a dot, is passed, as is
  "my-registry.example.com:5000"; a registry such as "localhost" is left out.
\<close>

theorem loginArgs_registry:
  "loginArgs options
     = [''login'', ''--username'', user options, ''--password'', password options]
       @ (if \<exists>c \<in> set (registry options). \<not> alnum c then [registry options] else [])
   \<and> loginArgs \<lparr>registry = ''docker.io'', user = u, password = p, dockerfileFinder = f\<rparr>
     = [''login'', ''--username'', u, ''--password'', p, ''docker.io'']
   \<and> loginArgs \<lparr>registry = ''my-registry.example.com:5000'', user = u, password = p,
                 dockerfileFinder = f\<rparr>
     = [''login'', ''--username'', u, ''--password'', p, ''my-registry.example.com:5000'']
   \<and> loginArgs \<lparr>registry = ''localhost'', user = u, password = p, dockerfileFinder = f\<rparr>
     = [''login'', ''--username'', u, ''--password'', p]"
  by (simp add: loginArgs_def has_non_alnum_def list_ex_iff alnum_def Let_def)

theorem loginArgs_registry_witness:
  "loginArgs \<lparr>registry = ''gcr.io'', user = ''bot'', password = ''secret'', dockerfileFinder = None\<rparr>
     = [''login'', ''--username'', ''bot'', ''--password'', ''secret'', ''gcr.io'']
   \<and> (\<exists>c \<in> set ''gcr.io''. \<not> alnum c)
   \<and> loginArgs \<lparr>registry = ''docker.io'', user = ''bot'', password = ''secret'', dockerfileFinder = None\<rparr>
     = [''login'', ''--username'', ''bot'', ''--password'', ''secret'', ''docker.io'']"
proof -
  have "\<exists>c \<in> set ''gcr.io''. \<not> alnum c"
    by (simp add: alnum_def)
  with loginArgs_registry
    [of "\<lparr>registry = ''gcr.io'', user = ''bot'', password = ''secret'', dockerfileFinder = None\<rparr>"
        "''bot''" "''secret''" None]
  show ?thesis by simp
qed

text \<open>
  The scenario of the claim fails: for the registry "docker.io" the login command does
  not leave the registry out, it passes it as the last argument.
\<close>

theorem loginArgs_docker_io_counterexample:
  "loginArgs \<lparr>registry = ''docker.io'', user = ''u'', password = ''p'', dockerfileFinder = None\<rparr>
     \<noteq> [''login'', ''--username'', ''u'', ''--password'', ''p'']
   \<and> last (loginArgs \<lparr>registry = ''docker.io'', user = ''u'', password = ''p'',
                       dockerfileFinder = None\<rparr>)
     = ''docker.io''"
  by (simp add: loginArgs_def has_non_alnum_def alnum_def Let_def)

section \<open>The branch suffix of the version\<close>

text \<open>
  C5.  The suffix is decided by comparing the branch after its slashes became dots with
  the default branch as it is.  A push on the default branch "release/1.0" therefore
  gets the suffix "release.1.0." in its version, and a push on the branch "a/b" of a
  repository whose default branch is "a.b" gets none.
\<close>

theorem NodeProjectVersioner_default_branch_with_slash:
  "NodeProjectVersioner ''1.2.0'' ''release/1.0'' ''release/1.0'' ''20180601120000''
     = ''1.2.0-release.1.0.20180601120000''
   \<and> branchSuffix ''release/1.0'' ''release/1.0'' = ''release.1.0.''
   \<and> branchSuffix ''a/b'' ''a.b'' = []
   \<and> NodeProjectVersioner ''1.2.0'' ''a/b'' ''a.b'' ''20180601120000'' = ''1.2.0-20180601120000''"
  by (simp add: NodeProjectVersioner_def branchSuffix_def split_join_def Let_def)

section \<open>Fingerprint listeners\<close>

lemma until_thrown_id:
  "(\<forall>i f e. Notify i f (Thrown e) \<notin> set evs) \<Longrightarrow> until_thrown evs = evs"
  by (induction evs rule: until_thrown.induct) auto

lemma notifications_mem:
  "Notify i f s \<in> set (notifications listeners fingerprints :: ('r, 'f) fingerprint_event list)
     \<longleftrightarrow> i < length listeners \<and> f \<in> set fingerprints \<and> s = (listeners ! i) f"
proof
  assume "Notify i f s \<in> set (notifications listeners fingerprints :: ('r, 'f) fingerprint_event list)"
  then show "i < length listeners \<and> f \<in> set fingerprints \<and> s = (listeners ! i) f"
    by (auto simp: notifications_def in_set_enumerate_eq)
next
  assume a: "i < length listeners \<and> f \<in> set fingerprints \<and> s = (listeners ! i) f"
  then have "(i, listeners ! i) \<in> set (enumerate 0 listeners)"
    by (simp add: in_set_enumerate_eq)
  with a show "Notify i f s \<in> set (notifications listeners fingerprints :: ('r, 'f) fingerprint_event list)"
    unfolding notifications_def by (auto intro!: bexI [of _ "(i, listeners ! i)"])
qed

lemma notifications_all_notify:
  "filter is_notify (notifications listeners fingerprints) = notifications listeners fingerprints"
  by (rule filter_True) (auto simp: notifications_def)

text \<open>
  C8.  When the fingerprints are computed and no listener throws before it returns its
  promise, the step calls every listener with every fingerprint, listener by listener,
  whether the promises returned by these calls resolve or are rejected: a rejected
  notification keeps no other notification from being made.
\<close>

theorem executeFingerprinting_notifies_all:
  assumes "fingerprinters \<noteq> []"
    and "projectLoader = Inr baseDir"
    and "createPushImpactListenerInvocation env = None"
    and "relevantCodeActions env fingerprinters = Inr relevant"
    and "computeFingerprints env relevant = Inr fingerprints"
    and "\<forall>l \<in> set listeners. \<forall>f \<in> set fingerprints. \<not> threw (l f)"
  shows "filter is_notify (fst (executeFingerprinting projectLoader fingerprinters listeners env))
           = notifications listeners fingerprints
       \<and> (\<forall>i < length listeners. \<forall>f \<in> set fingerprints.
            Notify i f ((listeners ! i) f)
              \<in> set (fst (executeFingerprinting projectLoader fingerprinters listeners env)))"
proof -
  have "until_thrown (notifications listeners fingerprints :: ('a, 'b) fingerprint_event list)
          = notifications listeners fingerprints"
  proof (rule until_thrown_id, intro allI notI)
    fix i f e
    assume "Notify i f (Thrown e)
              \<in> set (notifications listeners fingerprints :: ('a, 'b) fingerprint_event list)"
    then have "i < length listeners" "f \<in> set fingerprints" "Thrown e = (listeners ! i) f"
      by (simp_all add: notifications_mem)
    with assms(6) have "\<not> threw (Thrown e)" by (metis nth_mem)
    then show False by simp
  qed
  with assms(1-5) have t: "fst (executeFingerprinting projectLoader fingerprinters listeners env)
      = CreateInvocation # RelevantCodeActions # ComputeFingerprints relevant
          # notifications listeners fingerprints"
    by (simp add: executeFingerprinting_def Let_def)
  show ?thesis
    unfolding t by (simp add: notifications_all_notify notifications_mem)
qed

theorem executeFingerprinting_notifies_all_witness:
  "executeFingerprinting (Inr ''/tmp/p'') [''fp1'', ''fp2'']
     [\<lambda>f. Rejected (Exception ''listener failed''), \<lambda>f. Resolved]
     \<lparr>createPushImpactListenerInvocation = None,
      relevantCodeActions = (\<lambda>rs. Inr (take 1 rs)),
      computeFingerprints = (\<lambda>rs. Inr [''a'', ''b''])\<rparr>
   = ([CreateInvocation, RelevantCodeActions, ComputeFingerprints [''fp1''],
       Notify 0 ''a'' (Rejected (Exception ''listener failed'')),
       Notify 0 ''b'' (Rejected (Exception ''listener failed'')),
       Notify 1 ''a'' Resolved, Notify 1 ''b'' Resolved],
      Inl (Exception ''listener failed''))
   \<and> filter is_notify (fst (executeFingerprinting (Inr ''/tmp/p'') [''fp1'', ''fp2'']
     [\<lambda>f. Rejected (Exception ''listener failed''), \<lambda>f. Resolved]
     \<lparr>createPushImpactListenerInvocation = None,
      relevantCodeActions = (\<lambda>rs. Inr (take 1 rs)),
      computeFingerprints = (\<lambda>rs. Inr [''a'', ''b''])\<rparr>))
     = [Notify 0 ''a'' (Rejected (Exception ''listener failed'')),
        Notify 0 ''b'' (Rejected (Exception ''listener failed'')),
        Notify 1 ''a'' Resolved, Notify 1 ''b'' Resolved]"
proof -
  let ?ls = "[\<lambda>f. Rejected (Exception ''listener failed''), \<lambda>f. Resolved] :: (string \<Rightarrow> settle) list"
  let ?env = "\<lparr>createPushImpactListenerInvocation = None,
      relevantCodeActions = (\<lambda>rs. Inr (take 1 rs)),
      computeFingerprints = (\<lambda>rs. Inr [''a'', ''b''])\<rparr> :: (string, string) FingerprintImports"
  have n: "(notifications ?ls [''a'', ''b''] :: (string, string) fingerprint_event list)
      = [Notify 0 ''a'' (Rejected (Exception ''listener failed'')),
        Notify 0 ''b'' (Rejected (Exception ''listener failed'')),
        Notify 1 ''a'' Resolved, Notify 1 ''b'' Resolved]"
    by (simp add: notifications_def)
  have run: "executeFingerprinting (Inr ''/tmp/p'') [''fp1'', ''fp2''] ?ls ?env
   = ([CreateInvocation, RelevantCodeActions, ComputeFingerprints [''fp1''],
       Notify 0 ''a'' (Rejected (Exception ''listener failed'')),
       Notify 0 ''b'' (Rejected (Exception ''listener failed'')),
       Notify 1 ''a'' Resolved, Notify 1 ''b'' Resolved],
      Inl (Exception ''listener failed''))"
    by (simp add: executeFingerprinting_def n promise_all_def Let_def)
  from executeFingerprinting_notifies_all
    [of "[''fp1'', ''fp2'']" "Inr ''/tmp/p''" "''/tmp/p''" ?env "[''fp1'']" "[''a'', ''b'']" ?ls]
  have "filter is_notify (fst (executeFingerprinting (Inr ''/tmp/p'') [''fp1'', ''fp2''] ?ls ?env))
          = notifications ?ls [''a'', ''b'']"
    by simp
  with run n show ?thesis by simp
qed

section \<open>Results and exceptions of the goal executors\<close>

lemma runPreparations_returns:
  "list_all (\<lambda>p. \<not> isl p) ps \<Longrightarrow>
     (case snd (runPreparations i ps) of None \<Rightarrow> True | Some out \<Rightarrow> \<not> isl out)"
  by (induction i ps rule: runPreparations.induct) (auto split: prod.splits option.splits)

lemma dockerCommands_returns:
  assumes "\<forall>args. \<not> isl (spawnAndWatch env args)" and "\<forall>i. \<not> isl (postLinkImageWebhook env i)"
  shows "\<not> isl (snd (dockerCommands env options cwd img path))"
proof -
  have link: "\<not> isl (snd (createImageLink env img r))" for r
    using assms(2) [rule_format, of img]
    by (cases "postLinkImageWebhook env img") (simp_all add: createImageLink_def)
  obtain r1 where r1: "spawnAndWatch env (loginArgs options) = Inr r1"
    using assms(1) [rule_format, of "loginArgs options"]
    by (cases "spawnAndWatch env (loginArgs options)") simp_all
  obtain r2 where r2: "spawnAndWatch env [''build'', ''.'', ''-f'', path, ''-t'', img] = Inr r2"
    using assms(1) [rule_format, of "[''build'', ''.'', ''-f'', path, ''-t'', img]"]
    by (cases "spawnAndWatch env [''build'', ''.'', ''-f'', path, ''-t'', img]") simp_all
  obtain r3 where r3: "spawnAndWatch env [''push'', img] = Inr r3"
    using assms(1) [rule_format, of "[''push'', img]"]
    by (cases "spawnAndWatch env [''push'', img]") simp_all
  show ?thesis
    using link [of r3]
    by (auto simp: dockerCommands_def r1 r2 r3 Let_def split: prod.splits)
qed

lemma executeDockerBuild_returns:
  assumes "projectLoader = Inr cwd" and "list_all (\<lambda>p. \<not> isl p) preps"
    and "creator = Inr (reg, nm, ver)" and "\<not> isl (snd (findDockerfile options))"
    and "\<forall>args. \<not> isl (spawnAndWatch env args)" and "\<forall>i. \<not> isl (postLinkImageWebhook env i)"
  shows "\<not> isl (snd (executeDockerBuild projectLoader creator preps options env))"
proof -
  obtain t left where p: "runPreparations 0 preps = (t, left)"
    by (cases "runPreparations 0 preps")
  obtain u found where f: "findDockerfile options = (u, found)"
    by (cases "findDockerfile options")
  with assms(4) obtain path where path: "found = Inr path" by (cases found) simp_all
  show ?thesis
  proof (cases left)
    case None
    with assms(1,3) p f path
      dockerCommands_returns [OF assms(5,6), of options cwd "reg @ ''/'' @ nm @ '':'' @ ver" path]
    show ?thesis
      by (auto simp: executeDockerBuild_def resolveAndRun_def Let_def split: prod.splits)
  next
    case (Some out)
    with runPreparations_returns [OF assms(2), of 0] p have "\<not> isl out" by simp
    with assms(1) p Some show ?thesis by (simp add: executeDockerBuild_def)
  qed
qed

lemma thrown_until_thrown: "thrown (until_thrown evs) = thrown evs"
  by (induction evs rule: until_thrown.induct) simp_all

lemma until_thrown_none: "thrown evs = None \<Longrightarrow> until_thrown evs = evs"
  by (induction evs rule: until_thrown.induct) simp_all

lemma unsettled_found:
  "Notify i f s \<in> set evs \<Longrightarrow> s \<noteq> Resolved \<Longrightarrow> thrown evs \<noteq> None \<or> rejected evs \<noteq> None"
  by (induction evs rule: rejected.induct) auto

lemma promise_all_rejects:
  assumes "Notify i f s \<in> set evs" and "s \<noteq> Resolved"
  shows "isl (promise_all (until_thrown evs))"
proof (cases "thrown evs")
  case None
  with unsettled_found [OF assms] have "rejected evs \<noteq> None" by simp
  with None show ?thesis
    by (auto simp: promise_all_def until_thrown_none)
next
  case (Some e)
  then show ?thesis
    by (simp add: promise_all_def thrown_until_thrown)
qed

lemma promise_all_resolved:
  "\<forall>i f s. Notify i f s \<in> set evs \<longrightarrow> s = Resolved \<Longrightarrow> promise_all (until_thrown evs) = Inr ()"
proof -
  assume a: "\<forall>i f s. Notify i f s \<in> set evs \<longrightarrow> s = Resolved"
  have "thrown evs = None \<and> rejected evs = None"
    using a by (induction evs rule: rejected.induct) auto
  then show ?thesis
    by (simp add: promise_all_def until_thrown_none)
qed

lemma executeFingerprinting_returns:
  assumes "fingerprinters \<noteq> []" "projectLoader = Inr d"
    "createPushImpactListenerInvocation fenv = None"
    "relevantCodeActions fenv fingerprinters = Inr relevant"
    "computeFingerprints fenv relevant = Inr fingerprints"
    "\<forall>l \<in> set listeners. \<forall>f \<in> set fingerprints. l f = Resolved"
  shows "snd (executeFingerprinting projectLoader fingerprinters listeners fenv) = Inr Success"
proof -
  have "promise_all (until_thrown
          (notifications listeners fingerprints :: ('a, 'b) fingerprint_event list)) = Inr ()"
    by (rule promise_all_resolved) (use assms(6) in \<open>auto simp: notifications_mem\<close>)
  with assms(1-5) show ?thesis
    by (simp add: executeFingerprinting_def Let_def)
qed

lemma executeFingerprinting_rejects:
  assumes "fingerprinters \<noteq> []" "projectLoader = Inr d"
    "createPushImpactListenerInvocation fenv = None"
    "relevantCodeActions fenv fingerprinters = Inr relevant"
    "computeFingerprints fenv relevant = Inr fingerprints"
    "i < length listeners" "f \<in> set fingerprints" "(listeners ! i) f \<noteq> Resolved"
  shows "isl (snd (executeFingerprinting projectLoader fingerprinters listeners fenv))"
proof -
  have "Notify i f ((listeners ! i) f)
          \<in> set (notifications listeners fingerprints :: ('a, 'b) fingerprint_event list)"
    using assms(6,7) by (simp add: notifications_mem)
  from promise_all_rejects [OF this assms(8)] assms(1-5) show ?thesis
    by (auto simp: executeFingerprinting_def Let_def split: sum.splits)
qed

lemma runPreparations_throws:
  "list_all exited_zero ps \<Longrightarrow> snd (runPreparations i (ps @ Inl e # rest)) = Some (Inl e)"
proof (induction ps arbitrary: i)
  case Nil
  show ?case by simp
next
  case (Cons p ps)
  from Cons.prems have p: "exited_zero p" and ps: "list_all exited_zero ps"
    by simp_all
  from p obtain r where "p = Inr r" "code r = 0"
    by (cases p) (simp_all add: exited_zero_def)
  with Cons.IH [OF ps, of "Suc i"] show ?case
    by (auto split: prod.splits)
qed

lemma executeDockerBuild_reaches_commands:
  assumes "projectLoader = Inr cwd" and "list_all exited_zero preps"
    and "creator = Inr (reg, nm, ver)" and "snd (findDockerfile options) = Inr path"
  shows "snd (executeDockerBuild projectLoader creator preps options env)
           = snd (dockerCommands env options cwd (reg @ ''/'' @ nm @ '':'' @ ver) path)"
proof -
  obtain t where t: "runPreparations 0 preps = (t, None)"
    using runPreparations_all_zero [OF assms(2), of 0] by (cases "runPreparations 0 preps") auto
  obtain u where u: "findDockerfile options = (u, Inr path)"
    using assms(4) by (cases "findDockerfile options") auto
  show ?thesis
    using assms(1,3) t u
    by (simp add: executeDockerBuild_def resolveAndRun_def Let_def split: prod.splits)
qed

lemma executeTag_outcomes:
  "(projectLoader = Inl e \<longrightarrow> snd (executeTag projectLoader env) = Inl e)
   \<and> (projectLoader = Inr d \<and> readSdmVersion env = Inl e
        \<longrightarrow> snd (executeTag projectLoader env) = Inl e)
   \<and> (projectLoader = Inr d \<and> readSdmVersion env = Inr v \<and> createTag env v = Some e
        \<longrightarrow> snd (executeTag projectLoader env) = Inl e)
   \<and> (projectLoader = Inr d \<and> readSdmVersion env = Inr v \<and> createTag env v = None
        \<and> createTagReference env v = Some e
        \<longrightarrow> snd (executeTag projectLoader env) = Inl e)
   \<and> (projectLoader = Inr d \<and> readSdmVersion env = Inr v \<and> createTag env v = None
        \<and> createTagReference env v = None
        \<longrightarrow> snd (executeTag projectLoader env) = Inr Success)"
  by (simp add: executeTag_def createTagForStatus_def)

lemma executeDockerBuild_outcomes:
  "(projectLoader = Inl e
      \<longrightarrow> snd (executeDockerBuild projectLoader creator preps options env) = Inl e)
   \<and> (projectLoader = Inr cwd \<and> list_all exited_zero ps
      \<longrightarrow> snd (executeDockerBuild projectLoader creator (ps @ Inl e # rest) options env) = Inl e)
   \<and> (projectLoader = Inr cwd \<and> list_all exited_zero preps \<and> creator = Inl e
      \<longrightarrow> snd (executeDockerBuild projectLoader creator preps options env) = Inl e)
   \<and> (projectLoader = Inr cwd \<and> list_all exited_zero preps \<and> creator = Inr (reg, nm, ver)
        \<and> snd (findDockerfile options) = Inl e
      \<longrightarrow> snd (executeDockerBuild projectLoader creator preps options env) = Inl e)
   \<and> (projectLoader = Inr cwd \<and> list_all exited_zero preps \<and> creator = Inr (reg, nm, ver)
        \<and> snd (findDockerfile options) = Inr path
        \<and> spawnAndWatch env (loginArgs options) = Inl e
      \<longrightarrow> snd (executeDockerBuild projectLoader creator preps options env) = Inl e)
   \<and> (projectLoader = Inr cwd \<and> list_all exited_zero preps \<and> creator = Inr (reg, nm, ver)
        \<and> snd (findDockerfile options) = Inr path
        \<and> spawnAndWatch env (loginArgs options) = Inr r1 \<and> code r1 = 0
        \<and> spawnAndWatch env [''build'', ''.'', ''-f'', path, ''-t'', reg @ ''/'' @ nm @ '':'' @ ver]
            = Inl e
      \<longrightarrow> snd (executeDockerBuild projectLoader creator preps options env) = Inl e)
   \<and> (projectLoader = Inr cwd \<and> list_all exited_zero preps \<and> creator = Inr (reg, nm, ver)
        \<and> snd (findDockerfile options) = Inr path
        \<and> spawnAndWatch env (loginArgs options) = Inr r1 \<and> code r1 = 0
        \<and> spawnAndWatch env [''build'', ''.'', ''-f'', path, ''-t'', reg @ ''/'' @ nm @ '':'' @ ver]
            = Inr r2 \<and> code r2 = 0
        \<and> spawnAndWatch env [''push'', reg @ ''/'' @ nm @ '':'' @ ver] = Inl e
      \<longrightarrow> snd (executeDockerBuild projectLoader creator preps options env) = Inl e)
   \<and> (projectLoader = Inr cwd \<and> list_all exited_zero preps \<and> creator = Inr (reg, nm, ver)
        \<and> snd (findDockerfile options) = Inr path
        \<and> spawnAndWatch env (loginArgs options) = Inr r1 \<and> code r1 = 0
        \<and> spawnAndWatch env [''build'', ''.'', ''-f'', path, ''-t'', reg @ ''/'' @ nm @ '':'' @ ver]
            = Inr r2 \<and> code r2 = 0
        \<and> spawnAndWatch env [''push'', reg @ ''/'' @ nm @ '':'' @ ver] = Inr r3 \<and> code r3 = 0
        \<and> postLinkImageWebhook env (reg @ ''/'' @ nm @ '':'' @ ver) = Inl e
      \<longrightarrow> snd (executeDockerBuild projectLoader creator preps options env) = Inl e)
   \<and> (projectLoader = Inr cwd \<and> list_all (\<lambda>p. \<not> isl p) preps \<and> creator = Inr (reg, nm, ver)
        \<and> \<not> isl (snd (findDockerfile options)) \<and> (\<forall>args. \<not> isl (spawnAndWatch env args))
        \<and> (\<forall>i. \<not> isl (postLinkImageWebhook env i))
      \<longrightarrow> (\<exists>r. snd (executeDockerBuild projectLoader creator preps options env) = Inr r))"
proof (intro conjI impI; (elim conjE)?)
  assume "projectLoader = Inl e"
  then show "snd (executeDockerBuild projectLoader creator preps options env) = Inl e"
    by (simp add: executeDockerBuild_def)
next
  assume "projectLoader = Inr cwd" "list_all exited_zero ps"
  then show "snd (executeDockerBuild projectLoader creator (ps @ Inl e # rest) options env) = Inl e"
    using runPreparations_throws [of ps 0 e rest]
    by (auto simp: executeDockerBuild_def split: prod.splits option.splits)
next
  assume a: "projectLoader = Inr cwd" "list_all exited_zero preps" "creator = Inl e"
  obtain t where "runPreparations 0 preps = (t, None)"
    using runPreparations_all_zero [OF a(2), of 0] by (cases "runPreparations 0 preps") auto
  with a show "snd (executeDockerBuild projectLoader creator preps options env) = Inl e"
    by (simp add: executeDockerBuild_def resolveAndRun_def)
next
  assume a: "projectLoader = Inr cwd" "list_all exited_zero preps" "creator = Inr (reg, nm, ver)"
    "snd (findDockerfile options) = Inl e"
  obtain t where t: "runPreparations 0 preps = (t, None)"
    using runPreparations_all_zero [OF a(2), of 0] by (cases "runPreparations 0 preps") auto
  obtain u where "findDockerfile options = (u, Inl e)"
    using a(4) by (cases "findDockerfile options") auto
  with a t show "snd (executeDockerBuild projectLoader creator preps options env) = Inl e"
    by (simp add: executeDockerBuild_def resolveAndRun_def)
next
  assume a: "projectLoader = Inr cwd" "list_all exited_zero preps" "creator = Inr (reg, nm, ver)"
    "snd (findDockerfile options) = Inr path"
    and s: "spawnAndWatch env (loginArgs options) = Inl e"
  from s show "snd (executeDockerBuild projectLoader creator preps options env) = Inl e"
    unfolding executeDockerBuild_reaches_commands [OF a]
    by (simp add: dockerCommands_def Let_def)
next
  assume a: "projectLoader = Inr cwd" "list_all exited_zero preps" "creator = Inr (reg, nm, ver)"
    "snd (findDockerfile options) = Inr path"
    and s: "spawnAndWatch env (loginArgs options) = Inr r1" "code r1 = 0"
      "spawnAndWatch env [''build'', ''.'', ''-f'', path, ''-t'', reg @ ''/'' @ nm @ '':'' @ ver] = Inl e"
  from s show "snd (executeDockerBuild projectLoader creator preps options env) = Inl e"
    unfolding executeDockerBuild_reaches_commands [OF a]
    by (simp add: dockerCommands_def Let_def)
next
  assume a: "projectLoader = Inr cwd" "list_all exited_zero preps" "creator = Inr (reg, nm, ver)"
    "snd (findDockerfile options) = Inr path"
    and s: "spawnAndWatch env (loginArgs options) = Inr r1" "code r1 = 0"
      "spawnAndWatch env [''build'', ''.'', ''-f'', path, ''-t'', reg @ ''/'' @ nm @ '':'' @ ver] = Inr r2"
      "code r2 = 0"
      "spawnAndWatch env [''push'', reg @ ''/'' @ nm @ '':'' @ ver] = Inl e"
  from s show "snd (executeDockerBuild projectLoader creator preps options env) = Inl e"
    unfolding executeDockerBuild_reaches_commands [OF a]
    by (simp add: dockerCommands_def Let_def)
next
  assume a: "projectLoader = Inr cwd" "list_all exited_zero preps" "creator = Inr (reg, nm, ver)"
    "snd (findDockerfile options) = Inr path"
    and s: "spawnAndWatch env (loginArgs options) = Inr r1" "code r1 = 0"
      "spawnAndWatch env [''build'', ''.'', ''-f'', path, ''-t'', reg @ ''/'' @ nm @ '':'' @ ver] = Inr r2"
      "code r2 = 0"
      "spawnAndWatch env [''push'', reg @ ''/'' @ nm @ '':'' @ ver] = Inr r3" "code r3 = 0"
      "postLinkImageWebhook env (reg @ ''/'' @ nm @ '':'' @ ver) = Inl e"
  from s show "snd (executeDockerBuild projectLoader creator preps options env) = Inl e"
    unfolding executeDockerBuild_reaches_commands [OF a]
    by (simp add: dockerCommands_def createImageLink_def Let_def)
next
  assume "projectLoader = Inr cwd" "list_all (\<lambda>p. \<not> isl p) preps" "creator = Inr (reg, nm, ver)"
    "\<not> isl (snd (findDockerfile options))" "\<forall>args. \<not> isl (spawnAndWatch env args)"
    "\<forall>i. \<not> isl (postLinkImageWebhook env i)"
  then have "\<not> isl (snd (executeDockerBuild projectLoader creator preps options env))"
    by (rule executeDockerBuild_returns)
  then show "\<exists>r. snd (executeDockerBuild projectLoader creator preps options env) = Inr r"
    by (cases "snd (executeDockerBuild projectLoader creator preps options env)") simp_all
qed

lemma executeFingerprinting_outcomes:
  "executeFingerprinting projectLoader [] listeners fenv = ([], Inr Success)
   \<and> (fingerprinters \<noteq> [] \<and> projectLoader = Inl e
      \<longrightarrow> snd (executeFingerprinting projectLoader fingerprinters listeners fenv) = Inl e)
   \<and> (fingerprinters \<noteq> [] \<and> projectLoader = Inr d
        \<and> createPushImpactListenerInvocation fenv = Some e
      \<longrightarrow> snd (executeFingerprinting projectLoader fingerprinters listeners fenv) = Inl e)
   \<and> (fingerprinters \<noteq> [] \<and> projectLoader = Inr d
        \<and> createPushImpactListenerInvocation fenv = None
        \<and> relevantCodeActions fenv fingerprinters = Inl e
      \<longrightarrow> snd (executeFingerprinting projectLoader fingerprinters listeners fenv) = Inl e)
   \<and> (fingerprinters \<noteq> [] \<and> projectLoader = Inr d
        \<and> createPushImpactListenerInvocation fenv = None
        \<and> relevantCodeActions fenv fingerprinters = Inr relevant
        \<and> computeFingerprints fenv relevant = Inl e
      \<longrightarrow> snd (executeFingerprinting projectLoader fingerprinters listeners fenv) = Inl e)
   \<and> (fingerprinters \<noteq> [] \<and> projectLoader = Inr d
        \<and> createPushImpactListenerInvocation fenv = None
        \<and> relevantCodeActions fenv fingerprinters = Inr relevant
        \<and> computeFingerprints fenv relevant = Inr fingerprints
        \<and> k < length listeners \<and> g \<in> set fingerprints \<and> (listeners ! k) g \<noteq> Resolved
      \<longrightarrow> (\<exists>x. snd (executeFingerprinting projectLoader fingerprinters listeners fenv) = Inl x))
   \<and> (fingerprinters \<noteq> [] \<and> projectLoader = Inr d
        \<and> createPushImpactListenerInvocation fenv = None
        \<and> relevantCodeActions fenv fingerprinters = Inr relevant
        \<and> computeFingerprints fenv relevant = Inr fingerprints
        \<and> (\<forall>l \<in> set listeners. \<forall>f \<in> set fingerprints. l f = Resolved)
      \<longrightarrow> snd (executeFingerprinting projectLoader fingerprinters listeners fenv) = Inr Success)"
proof (intro conjI impI; (elim conjE)?)
  show "executeFingerprinting projectLoader [] listeners fenv = ([], Inr Success)"
    by (simp add: executeFingerprinting_def)
next
  assume "fingerprinters \<noteq> []" "projectLoader = Inl e"
  then show "snd (executeFingerprinting projectLoader fingerprinters listeners fenv) = Inl e"
    by (simp add: executeFingerprinting_def)
next
  assume "fingerprinters \<noteq> []" "projectLoader = Inr d"
    "createPushImpactListenerInvocation fenv = Some e"
  then show "snd (executeFingerprinting projectLoader fingerprinters listeners fenv) = Inl e"
    by (simp add: executeFingerprinting_def)
next
  assume "fingerprinters \<noteq> []" "projectLoader = Inr d"
    "createPushImpactListenerInvocation fenv = None"
    "relevantCodeActions fenv fingerprinters = Inl e"
  then show "snd (executeFingerprinting projectLoader fingerprinters listeners fenv) = Inl e"
    by (simp add: executeFingerprinting_def)
next
  assume "fingerprinters \<noteq> []" "projectLoader = Inr d"
    "createPushImpactListenerInvocation fenv = None"
    "relevantCodeActions fenv fingerprinters = Inr relevant"
    "computeFingerprints fenv relevant = Inl e"
  then show "snd (executeFingerprinting projectLoader fingerprinters listeners fenv) = Inl e"
    by (simp add: executeFingerprinting_def)
next
  assume "fingerprinters \<noteq> []" "projectLoader = Inr d"
    "createPushImpactListenerInvocation fenv = None"
    "relevantCodeActions fenv fingerprinters = Inr relevant"
    "computeFingerprints fenv relevant = Inr fingerprints"
    "k < length listeners" "g \<in> set fingerprints" "(listeners ! k) g \<noteq> Resolved"
  then have "isl (snd (executeFingerprinting projectLoader fingerprinters listeners fenv))"
    by (rule executeFingerprinting_rejects)
  then show "\<exists>x. snd (executeFingerprinting projectLoader fingerprinters listeners fenv) = Inl x"
    by (cases "snd (executeFingerprinting projectLoader fingerprinters listeners fenv)") simp_all
next
  assume "fingerprinters \<noteq> []" "projectLoader = Inr d"
    "createPushImpactListenerInvocation fenv = None"
    "relevantCodeActions fenv fingerprinters = Inr relevant"
    "computeFingerprints fenv relevant = Inr fingerprints"
    "\<forall>l \<in> set listeners. \<forall>f \<in> set fingerprints. l f = Resolved"
  then show "snd (executeFingerprinting projectLoader fingerprinters listeners fenv) = Inr Success"
    by (rule executeFingerprinting_returns)
qed

text \<open>
  C9, as the code has it.  Each of the three executors ends in exactly one outcome.
  When the calls it makes succeed, the outcome is an \<open>ExecuteGoalResult\<close>: \<open>Success\<close> for
  tagging and for fingerprinting, some result for the docker build.  An exception of a
  collaborator is not turned into a failing result, it rejects the promise of the
  executor with that exception: for tagging the project load, the version read, the tag
  creation and the creation of the tag reference; for the docker build the project load,
  a preparation, the image name creator, the Dockerfile finder, docker login, docker
  build, docker push and the image link webhook; for fingerprinting the project load,
  the creation of the listener invocation, the selection of the relevant fingerprinters
  and the computation of the fingerprints, and a listener notification that does not
  resolve rejects the promise as well.
\<close>

theorem executors_result_or_exception:
  "((projectLoader = Inl e \<longrightarrow> snd (executeTag projectLoader env) = Inl e)
   \<and> (projectLoader = Inr d \<and> readSdmVersion env = Inl e
        \<longrightarrow> snd (executeTag projectLoader env) = Inl e)
   \<and> (projectLoader = Inr d \<and> readSdmVersion env = Inr v \<and> createTag env v = Some e
        \<longrightarrow> snd (executeTag projectLoader env) = Inl e)
   \<and> (projectLoader = Inr d \<and> readSdmVersion env = Inr v \<and> createTag env v = None
        \<and> createTagReference env v = Some e
        \<longrightarrow> snd (executeTag projectLoader env) = Inl e)
   \<and> (projectLoader = Inr d \<and> readSdmVersion env = Inr v \<and> createTag env v = None
        \<and> createTagReference env v = None
        \<longrightarrow> snd (executeTag projectLoader env) = Inr Success))
   \<and> ((projectLoader = Inl e
      \<longrightarrow> snd (executeDockerBuild projectLoader creator preps options env) = Inl e)
   \<and> (projectLoader = Inr cwd \<and> list_all exited_zero ps
      \<longrightarrow> snd (executeDockerBuild projectLoader creator (ps @ Inl e # rest) options env) = Inl e)
   \<and> (projectLoader = Inr cwd \<and> list_all exited_zero preps \<and> creator = Inl e
      \<longrightarrow> snd (executeDockerBuild projectLoader creator preps options env) = Inl e)
   \<and> (projectLoader = Inr cwd \<and> list_all exited_zero preps \<and> creator = Inr (reg, nm, ver)
        \<and> snd (findDockerfile options) = Inl e
      \<longrightarrow> snd (executeDockerBuild projectLoader creator preps options env) = Inl e)
   \<and> (projectLoader = Inr cwd \<and> list_all exited_zero preps \<and> creator = Inr (reg, nm, ver)
        \<and> snd (findDockerfile options) = Inr path
        \<and> spawnAndWatch env (loginArgs options) = Inl e
      \<longrightarrow> snd (executeDockerBuild projectLoader creator preps options env) = Inl e)
   \<and> (projectLoader = Inr cwd \<and> list_all exited_zero preps \<and> creator = Inr (reg, nm, ver)
        \<and> snd (findDockerfile options) = Inr path
        \<and> spawnAndWatch env (loginArgs options) = Inr r1 \<and> code r1 = 0
        \<and> spawnAndWatch env [''build'', ''.'', ''-f'', path, ''-t'', reg @ ''/'' @ nm @ '':'' @ ver]
            = Inl e
      \<longrightarrow> snd (executeDockerBuild projectLoader creator preps options env) = Inl e)
   \<and> (projectLoader = Inr cwd \<and> list_all exited_zero preps \<and> creator = Inr (reg, nm, ver)
        \<and> snd (findDockerfile options) = Inr path
        \<and> spawnAndWatch env (loginArgs options) = Inr r1 \<and> code r1 = 0
        \<and> spawnAndWatch env [''build'', ''.'', ''-f'', path, ''-t'', reg @ ''/'' @ nm @ '':'' @ ver]
            = Inr r2 \<and> code r2 = 0
        \<and> spawnAndWatch env [''push'', reg @ ''/'' @ nm @ '':'' @ ver] = Inl e
      \<longrightarrow> snd (executeDockerBuild projectLoader creator preps options env) = Inl e)
   \<and> (projectLoader = Inr cwd \<and> list_all exited_zero preps \<and> creator = Inr (reg, nm, ver)
        \<and> snd (findDockerfile options) = Inr path
        \<and> spawnAndWatch env (loginArgs options) = Inr r1 \<and> code r1 = 0
        \<and> spawnAndWatch env [''build'', ''.'', ''-f'', path, ''-t'', reg @ ''/'' @ nm @ '':'' @ ver]
            = Inr r2 \<and> code r2 = 0
        \<and> spawnAndWatch env [''push'', reg @ ''/'' @ nm @ '':'' @ ver] = Inr r3 \<and> code r3 = 0
        \<and> postLinkImageWebhook env (reg @ ''/'' @ nm @ '':'' @ ver) = Inl e
      \<longrightarrow> snd (executeDockerBuild projectLoader creator preps options env) = Inl e)
   \<and> (projectLoader = Inr cwd \<and> list_all (\<lambda>p. \<not> isl p) preps \<and> creator = Inr (reg, nm, ver)
        \<and> \<not> isl (snd (findDockerfile options)) \<and> (\<forall>args. \<not> isl (spawnAndWatch env args))
        \<and> (\<forall>i. \<not> isl (postLinkImageWebhook env i))
      \<longrightarrow> (\<exists>r. snd (executeDockerBuild projectLoader creator preps options env) = Inr r)))
   \<and> (executeFingerprinting projectLoader [] listeners fenv = ([], Inr Success)
   \<and> (fingerprinters \<noteq> [] \<and> projectLoader = Inl e
      \<longrightarrow> snd (executeFingerprinting projectLoader fingerprinters listeners fenv) = Inl e)
   \<and> (fingerprinters \<noteq> [] \<and> projectLoader = Inr d
        \<and> createPushImpactListenerInvocation fenv = Some e
      \<longrightarrow> snd (executeFingerprinting projectLoader fingerprinters listeners fenv) = Inl e)
   \<and> (fingerprinters \<noteq> [] \<and> projectLoader = Inr d
        \<and> createPushImpactListenerInvocation fenv = None
        \<and> relevantCodeActions fenv fingerprinters = Inl e
      \<longrightarrow> snd (executeFingerprinting projectLoader fingerprinters listeners fenv) = Inl e)
   \<and> (fingerprinters \<noteq> [] \<and> projectLoader = Inr d
        \<and> createPushImpactListenerInvocation fenv = None
        \<and> relevantCodeActions fenv fingerprinters = Inr relevant
        \<and> computeFingerprints fenv relevant = Inl e
      \<longrightarrow> snd (executeFingerprinting projectLoader fingerprinters listeners fenv) = Inl e)
   \<and> (fingerprinters \<noteq> [] \<and> projectLoader = Inr d
        \<and> createPushImpactListenerInvocation fenv = None
        \<and> relevantCodeActions fenv fingerprinters = Inr relevant
        \<and> computeFingerprints fenv relevant = Inr fingerprints
        \<and> k < length listeners \<and> g \<in> set fingerprints \<and> (listeners ! k) g \<noteq> Resolved
      \<longrightarrow> (\<exists>x. snd (executeFingerprinting projectLoader fingerprinters listeners fenv) = Inl x))
   \<and> (fingerprinters \<noteq> [] \<and> projectLoader = Inr d
        \<and> createPushImpactListenerInvocation fenv = None
        \<and> relevantCodeActions fenv fingerprinters = Inr relevant
        \<and> computeFingerprints fenv relevant = Inr fingerprints
        \<and> (\<forall>l \<in> set listeners. \<forall>f \<in> set fingerprints. l f = Resolved)
      \<longrightarrow> snd (executeFingerprinting projectLoader fingerprinters listeners fenv) = Inr Success))"
  by (rule conjI [OF executeTag_outcomes
        conjI [OF executeDockerBuild_outcomes executeFingerprinting_outcomes]])

theorem executors_result_or_exception_witness:
  "snd (executeTag (Inr ''/tmp/p'')
     \<lparr>spawnAndWatch = (\<lambda>args. if hd args = ''push'' then Inl (Exception ''unreachable'')
                               else Inr \<lparr>code = 0, message = None\<rparr>),
      postLinkImageWebhook = (\<lambda>i. Inr True), readSdmVersion = Inl (Exception ''unreachable''),
      createTag = (\<lambda>t. None), createTagReference = (\<lambda>t. None)\<rparr>) = Inl (Exception ''unreachable'')
   \<and> snd (executeDockerBuild (Inr ''/tmp/p'') (Inr (''r.io'', ''app'', ''1.0''))
     [Inr \<lparr>code = 0, message = None\<rparr>]
     \<lparr>registry = ''r.io'', user = ''u'', password = ''p'', dockerfileFinder = None\<rparr>
     \<lparr>spawnAndWatch = (\<lambda>args. if hd args = ''push'' then Inl (Exception ''unreachable'')
                               else Inr \<lparr>code = 0, message = None\<rparr>),
      postLinkImageWebhook = (\<lambda>i. Inr True), readSdmVersion = Inl (Exception ''unreachable''),
      createTag = (\<lambda>t. None), createTagReference = (\<lambda>t. None)\<rparr>) = Inl (Exception ''unreachable'')
   \<and> snd (executeFingerprinting (Inr ''/tmp/p'') [''fp''] [\<lambda>f :: string. Resolved]
       \<lparr>createPushImpactListenerInvocation = None,
        relevantCodeActions = (\<lambda>rs. Inr rs),
        computeFingerprints = (\<lambda>rs. Inl (Exception ''unreachable''))\<rparr>)
     = Inl (Exception ''unreachable'')"
proof -
  let ?env = "\<lparr>spawnAndWatch = (\<lambda>args. if hd args = ''push'' then Inl (Exception ''unreachable'')
                               else Inr \<lparr>code = 0, message = None\<rparr>),
      postLinkImageWebhook = (\<lambda>i. Inr True), readSdmVersion = Inl (Exception ''unreachable''),
      createTag = (\<lambda>t. None), createTagReference = (\<lambda>t. None)\<rparr>"
  let ?opts = "\<lparr>registry = ''r.io'', user = ''u'', password = ''p'', dockerfileFinder = None\<rparr>"
  let ?fenv = "\<lparr>createPushImpactListenerInvocation = None,
        relevantCodeActions = (\<lambda>rs. Inr rs),
        computeFingerprints = (\<lambda>rs. Inl (Exception ''unreachable''))\<rparr>
          :: (string, string) FingerprintImports"
  let ?ls = "[\<lambda>f. Resolved] :: (string \<Rightarrow> settle) list"
  note w = executors_result_or_exception
    [where projectLoader = "Inr ''/tmp/p''" and d = "''/tmp/p''" and cwd = "''/tmp/p''"
       and env = ?env and e = "Exception ''unreachable''"
       and creator = "Inr (''r.io'', ''app'', ''1.0'')"
       and preps = "[Inr \<lparr>code = 0, message = None\<rparr>]" and options = ?opts
       and reg = "''r.io''" and nm = "''app''" and ver = "''1.0''" and path = "''Dockerfile''"
       and ?r1.0 = "\<lparr>code = 0, message = None\<rparr>" and ?r2.0 = "\<lparr>code = 0, message = None\<rparr>"
       and listeners = ?ls and fenv = ?fenv and fingerprinters = "[''fp'']"
       and relevant = "[''fp'']"]
  from w have "snd (executeTag (Inr ''/tmp/p'') ?env) = Inl (Exception ''unreachable'')"
    by simp
  moreover from w have "snd (executeDockerBuild (Inr ''/tmp/p'')
      (Inr (''r.io'', ''app'', ''1.0'')) [Inr \<lparr>code = 0, message = None\<rparr>] ?opts ?env)
        = Inl (Exception ''unreachable'')"
    by (simp add: exited_zero_def findDockerfile_def loginArgs_def Let_def)
  moreover from w have "snd (executeFingerprinting (Inr ''/tmp/p'') [''fp''] ?ls ?fenv)
        = Inl (Exception ''unreachable'')"
    by simp
  ultimately show ?thesis by blast
qed

text \<open>
  The claim fails where a collaborator throws: with a tag that exists already, tag
  creation throws and \<open>executeTag\<close> returns no result at all, its promise is rejected
  with that exception.
\<close>

theorem executeTag_counterexample:
  "executeTag (Inr ''/tmp/p'')
     \<lparr>spawnAndWatch = (\<lambda>args. Inr \<lparr>code = 0, message = None\<rparr>),
      postLinkImageWebhook = (\<lambda>i. Inr True), readSdmVersion = Inr ''1.0.0'',
      createTag = (\<lambda>t. Some (Exception ''Reference already exists'')),
      createTagReference = (\<lambda>t. None)\<rparr>
   = ([ReadSdmVersion, CreateTag ''1.0.0''], Inl (Exception ''Reference already exists''))
   \<and> \<not> (\<exists>r. snd (executeTag (Inr ''/tmp/p'')
     \<lparr>spawnAndWatch = (\<lambda>args. Inr \<lparr>code = 0, message = None\<rparr>),
      postLinkImageWebhook = (\<lambda>i. Inr True), readSdmVersion = Inr ''1.0.0'',
      createTag = (\<lambda>t. Some (Exception ''Reference already exists'')),
      createTagReference = (\<lambda>t. None)\<rparr>) = Inr r)"
  by (simp add: executeTag_def createTagForStatus_def)

end
